theory Spec2Isabelle
  imports Main "HOL-Library.Word" "HOL-Library.AList"
begin

unbundle bit_operations_syntax

section \<open>Versioned Translator: a shallow embedding of \<^verbatim>\<open>versioned_translator/logic.py\<close>\<close>

text \<open>
  The module translates configured fields of a Frappe document through the DeepL REST
  endpoint and keeps the results in the Translation Store table, one row per
  (parent doctype, parent name, version id, language).

  Conventions of the embedding.
  \<^item> Python text is a \<^typ>\<open>string\<close>. The embedding is exact on ASCII text (doctype
    names, field names, language codes, timestamps); on bytes from 128 on the case
    mappings are the identity and \<open>encode\<close> passes the byte through.
  \<^item> Every effect is a field of the record \<open>world\<close>: the Translation Store table, the
    background queue, the requests posted to DeepL, the host's error log, and the number
    of clock readings taken so far.
  \<^item> What the host gives back is the record \<open>env\<close>: the settings singleton, the
    Translation Map table, the documents, the answer of the HTTP endpoint to a request
    and the wall clock.
  \<^item> A Python exception is a value of \<open>py_exn\<close>; a function whose body can raise returns
    \<open>py_exn + 'a\<close> beside the world it leaves behind.
  \<^item> The host's storage primitives (\<^verbatim>\<open>frappe.db.get_value\<close>, \<^verbatim>\<open>insert\<close>,
    \<^verbatim>\<open>save\<close>, \<^verbatim>\<open>commit\<close>), \<^verbatim>\<open>frappe.enqueue\<close> and \<^verbatim>\<open>frappe.log_error\<close> are
    taken to succeed, so the handlers that only guard them have no branch here.
  \<^item> \<^verbatim>\<open>on_doc_load\<close>, \<^verbatim>\<open>get_translation_for_ui\<close> and
    \<^verbatim>\<open>get_fields_for_translation\<close> take no part in the properties below and are not
    embedded.
\<close>

subsection \<open>Text\<close>

definition char_upper :: "char \<Rightarrow> char" where
  "char_upper c =
     (let n = (of_char c :: nat) in if 97 \<le> n \<and> n \<le> 122 then char_of (n - 32) else c)"

definition char_lower :: "char \<Rightarrow> char" where
  "char_lower c =
     (let n = (of_char c :: nat) in if 65 \<le> n \<and> n \<le> 90 then char_of (n + 32) else c)"

text \<open>\<^verbatim>\<open>str.upper()\<close> and \<^verbatim>\<open>str.lower()\<close>.\<close>

definition str_upper :: "string \<Rightarrow> string" where
  "str_upper s = map char_upper s"

definition str_lower :: "string \<Rightarrow> string" where
  "str_lower s = map char_lower s"

text \<open>The ASCII characters for which \<^verbatim>\<open>str.isspace()\<close> holds.\<close>

definition is_space :: "char \<Rightarrow> bool" where
  "is_space c =
     (let n = (of_char c :: nat) in (9 \<le> n \<and> n \<le> 13) \<or> (28 \<le> n \<and> n \<le> 32))"

text \<open>\<^verbatim>\<open>str.strip()\<close>.\<close>

definition str_strip :: "string \<Rightarrow> string" where
  "str_strip s = rev (dropWhile is_space (rev (dropWhile is_space s)))"

text \<open>\<^verbatim>\<open>str.split(sep)\<close> for a separator of one character.\<close>

fun str_split :: "char \<Rightarrow> string \<Rightarrow> string list" where
  "str_split sep [] = [[]]"
| "str_split sep (c # cs) =
     (if c = sep then [] # str_split sep cs
      else (case str_split sep cs of
              [] \<Rightarrow> [[c]]
            | w # ws \<Rightarrow> (c # w) # ws))"

text \<open>\<^verbatim>\<open>needle in haystack\<close> on two strings.\<close>

fun str_contains :: "string \<Rightarrow> string \<Rightarrow> bool" where
  "str_contains needle [] = (needle = [])"
| "str_contains needle (c # cs) =
     (take (length needle) (c # cs) = needle \<or> str_contains needle cs)"

definition digit_char :: "nat \<Rightarrow> char" where
  "digit_char n = char_of (48 + n)"

text \<open>\<^verbatim>\<open>str(n)\<close> for a natural number.\<close>

fun decimal :: "nat \<Rightarrow> string" where
  "decimal n = (if n < 10 then [digit_char n] else decimal (n div 10) @ [digit_char (n mod 10)])"

declare decimal.simps [simp del]

text \<open>\<^verbatim>\<open>str.zfill(k)\<close> on a string of digits.\<close>

definition zfill :: "nat \<Rightarrow> string \<Rightarrow> string" where
  "zfill k s = replicate (k - length s) (CHR ''0'') @ s"

subsection \<open>Python values\<close>

record datetime =
  year :: nat
  month :: nat
  day :: nat
  hour :: nat
  minute :: nat
  second :: nat
  microsecond :: nat

text \<open>
  \<^verbatim>\<open>strftime("%Y%m%d%H%M%S")\<close>: the year on four digits, every other part on two; the
  microseconds are dropped.
\<close>

definition strftime_compact :: "datetime \<Rightarrow> string" where
  "strftime_compact d =
     zfill 4 (decimal (year d)) @ zfill 2 (decimal (month d)) @ zfill 2 (decimal (day d))
       @ zfill 2 (decimal (hour d)) @ zfill 2 (decimal (minute d)) @ zfill 2 (decimal (second d))"

text \<open>\<^verbatim>\<open>str(d)\<close> of a datetime: ISO format with a space, microseconds when not zero.\<close>

definition datetime_str :: "datetime \<Rightarrow> string" where
  "datetime_str d =
     zfill 4 (decimal (year d)) @ ''-'' @ zfill 2 (decimal (month d)) @ ''-''
       @ zfill 2 (decimal (day d)) @ '' '' @ zfill 2 (decimal (hour d)) @ '':''
       @ zfill 2 (decimal (minute d)) @ '':'' @ zfill 2 (decimal (second d))
       @ (if microsecond d = 0 then [] else ''.'' @ zfill 6 (decimal (microsecond d)))"

text \<open>The values an attribute of a document holds.\<close>

datatype pyval = PNone | PBool bool | PInt int | PStr string | PDatetime datetime

text \<open>Truth value testing, as \<^verbatim>\<open>if value:\<close> does it.\<close>

fun truthy :: "pyval \<Rightarrow> bool" where
  "truthy PNone = False"
| "truthy (PBool b) = b"
| "truthy (PInt i) = (i \<noteq> 0)"
| "truthy (PStr s) = (s \<noteq> [])"
| "truthy (PDatetime d) = True"

text \<open>\<^verbatim>\<open>str(value)\<close>.\<close>

fun py_str :: "pyval \<Rightarrow> string" where
  "py_str PNone = ''None''"
| "py_str (PBool b) = (if b then ''True'' else ''False'')"
| "py_str (PInt i) = (if i < 0 then ''-'' @ decimal (nat (- i)) else decimal (nat i))"
| "py_str (PStr s) = s"
| "py_str (PDatetime d) = datetime_str d"

text \<open>\<^verbatim>\<open>x or default\<close> on an optional string: \<open>None\<close> and the empty string are false.\<close>

fun py_or :: "string option \<Rightarrow> string \<Rightarrow> string" where
  "py_or None d = d"
| "py_or (Some s) d = (if s = [] then d else s)"

subsection \<open>JSON values\<close>

text \<open>
  What \<^verbatim>\<open>response.json()\<close> returns and \<^verbatim>\<open>json.dumps\<close> takes. \<open>JNull\<close> is Python's
  \<^verbatim>\<open>None\<close>. An object is the list of its members in insertion order, its keys distinct.
  Numbers with a fraction are not modelled.
\<close>

datatype json =
  JNull | JBool bool | JInt int | JStr string | JArr "json list" | JObj "(string \<times> json) list"

fun json_truthy :: "json \<Rightarrow> bool" where
  "json_truthy JNull = False"
| "json_truthy (JBool b) = b"
| "json_truthy (JInt i) = (i \<noteq> 0)"
| "json_truthy (JStr s) = (s \<noteq> [])"
| "json_truthy (JArr xs) = (xs \<noteq> [])"
| "json_truthy (JObj kvs) = (kvs \<noteq> [])"

definition hex_digit :: "nat \<Rightarrow> char" where
  "hex_digit n = (if n < 10 then char_of (48 + n) else char_of (87 + n))"

definition hex_byte :: "nat \<Rightarrow> string" where
  "hex_byte b = [hex_digit (b div 16 mod 16), hex_digit (b mod 16)]"

text \<open>
  The escapes of \<^verbatim>\<open>json.dumps\<close> (\<^verbatim>\<open>ensure_ascii=True\<close>): the quote, the backslash
  and the short escapes of backspace, tab, newline, form feed and carriage return; every
  other character outside the range from space to tilde as \<^verbatim>\<open>\u00XX\<close>.
\<close>

definition json_escape_char :: "char \<Rightarrow> string" where
  "json_escape_char c =
     (let n = (of_char c :: nat) in
      if n = 34 then [CHR 0x5C, CHR 0x22]
      else if n = 92 then [CHR 0x5C, CHR 0x5C]
      else if n = 8 then [CHR 0x5C, CHR ''b'']
      else if n = 9 then [CHR 0x5C, CHR ''t'']
      else if n = 10 then [CHR 0x5C, CHR ''n'']
      else if n = 12 then [CHR 0x5C, CHR ''f'']
      else if n = 13 then [CHR 0x5C, CHR ''r'']
      else if 32 \<le> n \<and> n \<le> 126 then [c]
      else [CHR 0x5C, CHR ''u'', CHR ''0'', CHR ''0''] @ hex_byte n)"

definition json_quote :: "string \<Rightarrow> string" where
  "json_quote s = [CHR 0x22] @ concat (map json_escape_char s) @ [CHR 0x22]"

text \<open>\<^verbatim>\<open>", ".join(parts)\<close>.\<close>

fun join_comma :: "string list \<Rightarrow> string" where
  "join_comma [] = []"
| "join_comma [p] = p"
| "join_comma (p # q # ps) = p @ '', '' @ join_comma (q # ps)"

text \<open>\<^verbatim>\<open>json.dumps(value)\<close> with the default separators.\<close>

primrec json_dumps :: "json \<Rightarrow> string" where
  "json_dumps JNull = ''null''"
| "json_dumps (JBool b) = (if b then ''true'' else ''false'')"
| "json_dumps (JInt i) = (if i < 0 then ''-'' @ decimal (nat (- i)) else decimal (nat i))"
| "json_dumps (JStr s) = json_quote s"
| "json_dumps (JArr xs) = ''['' @ join_comma (map json_dumps xs) @ '']''"
| "json_dumps (JObj kvs) =
     ''{'' @ join_comma (map (\<lambda>(k, v). json_quote k @ '': '' @ v) (map (map_prod id json_dumps) kvs))
       @ ''}''"

subsection \<open>MD5 (\<^verbatim>\<open>hashlib.md5\<close>, RFC 1321)\<close>

type_synonym w32 = "32 word"

definition md5_shifts :: "nat list" where
  "md5_shifts =
     [7, 12, 17, 22, 7, 12, 17, 22, 7, 12, 17, 22, 7, 12, 17, 22,
      5, 9, 14, 20, 5, 9, 14, 20, 5, 9, 14, 20, 5, 9, 14, 20,
      4, 11, 16, 23, 4, 11, 16, 23, 4, 11, 16, 23, 4, 11, 16, 23,
      6, 10, 15, 21, 6, 10, 15, 21, 6, 10, 15, 21, 6, 10, 15, 21]"

definition md5_sines :: "w32 list" where
  "md5_sines =
     [0xd76aa478, 0xe8c7b756, 0x242070db, 0xc1bdceee, 0xf57c0faf, 0x4787c62a, 0xa8304613, 0xfd469501,
      0x698098d8, 0x8b44f7af, 0xffff5bb1, 0x895cd7be, 0x6b901122, 0xfd987193, 0xa679438e, 0x49b40821,
      0xf61e2562, 0xc040b340, 0x265e5a51, 0xe9b6c7aa, 0xd62f105d, 0x02441453, 0xd8a1e681, 0xe7d3fbc8,
      0x21e1cde6, 0xc33707d6, 0xf4d50d87, 0x455a14ed, 0xa9e3e905, 0xfcefa3f8, 0x676f02d9, 0x8d2a4c8a,
      0xfffa3942, 0x8771f681, 0x6d9d6122, 0xfde5380c, 0xa4beea44, 0x4bdecfa9, 0xf6bb4b60, 0xbebfbc70,
      0x289b7ec6, 0xeaa127fa, 0xd4ef3085, 0x04881d05, 0xd9d4d039, 0xe6db99e5, 0x1fa27cf8, 0xc4ac5665,
      0xf4292244, 0x432aff97, 0xab9423a7, 0xfc93a039, 0x655b59c3, 0x8f0ccc92, 0xffeff47d, 0x85845dd1,
      0x6fa87e4f, 0xfe2ce6e0, 0xa3014314, 0x4e0811a1, 0xf7537e82, 0xbd3af235, 0x2ad7d2bb, 0xeb86d391]"

definition md5_mix :: "nat \<Rightarrow> w32 \<Rightarrow> w32 \<Rightarrow> w32 \<Rightarrow> w32" where
  "md5_mix i b c d =
     (if i < 16 then (b AND c) OR (NOT b AND d)
      else if i < 32 then (d AND b) OR (NOT d AND c)
      else if i < 48 then b XOR c XOR d
      else c XOR (b OR NOT d))"

definition md5_index :: "nat \<Rightarrow> nat" where
  "md5_index i =
     (if i < 16 then i
      else if i < 32 then (5 * i + 1) mod 16
      else if i < 48 then (3 * i + 5) mod 16
      else (7 * i) mod 16)"

definition md5_round ::
  "w32 list \<Rightarrow> w32 \<times> w32 \<times> w32 \<times> w32 \<Rightarrow> nat \<Rightarrow> w32 \<times> w32 \<times> w32 \<times> w32" where
  "md5_round m s i =
     (case s of (a, b, c, d) \<Rightarrow>
        let f = md5_mix i b c d + a + md5_sines ! i + m ! md5_index i
        in (d, b + word_rotl (md5_shifts ! i) f, b, c))"

definition md5_block :: "w32 \<times> w32 \<times> w32 \<times> w32 \<Rightarrow> w32 list \<Rightarrow> w32 \<times> w32 \<times> w32 \<times> w32" where
  "md5_block s0 m =
     (case s0 of (a0, b0, c0, d0) \<Rightarrow>
        case foldl (md5_round m) s0 [0..<64] of
          (a, b, c, d) \<Rightarrow> (a0 + a, b0 + b, c0 + c, d0 + d))"

text \<open>The \<open>k\<close> low bytes of \<open>n\<close>, least significant first.\<close>

definition le_bytes :: "nat \<Rightarrow> nat \<Rightarrow> nat list" where
  "le_bytes k n = map (\<lambda>i. (n div 256 ^ i) mod 256) [0..<k]"

definition md5_pad :: "nat list \<Rightarrow> nat list" where
  "md5_pad bs =
     bs @ [128] @ replicate ((119 - length bs mod 64) mod 64) 0
        @ le_bytes 8 ((8 * length bs) mod 2 ^ 64)"

definition le_word :: "nat list \<Rightarrow> w32" where
  "le_word bs = of_nat (foldr (\<lambda>b acc. b + 256 * acc) bs 0)"

fun chunks :: "nat \<Rightarrow> nat \<Rightarrow> 'a list \<Rightarrow> 'a list list" where
  "chunks 0 k xs = []"
| "chunks (Suc n) k xs = take k xs # chunks n k (drop k xs)"

definition md5_blocks :: "nat list \<Rightarrow> w32 list list" where
  "md5_blocks bs =
     map (\<lambda>blk. map le_word (chunks 16 4 blk)) (chunks (length bs div 64) 64 bs)"

definition md5_digest :: "nat list \<Rightarrow> nat list" where
  "md5_digest bs =
     (case foldl md5_block (0x67452301, 0xefcdab89, 0x98badcfe, 0x10325476)
             (md5_blocks (md5_pad bs)) of
        (a, b, c, d) \<Rightarrow> concat (map (\<lambda>w. le_bytes 4 (unat w)) [a, b, c, d]))"

text \<open>\<^verbatim>\<open>hashlib.md5(bs).hexdigest()\<close>.\<close>

definition md5_hexdigest :: "nat list \<Rightarrow> string" where
  "md5_hexdigest bs = concat (map hex_byte (md5_digest bs))"

text \<open>\<^verbatim>\<open>str.encode()\<close>: the bytes of the text.\<close>

definition encode :: "string \<Rightarrow> nat list" where
  "encode s = map of_char s"

subsection \<open>The host's data\<close>

text \<open>The Translation Settings singleton, as \<^verbatim>\<open>get_translation_settings\<close> returns it.\<close>

record translation_settings =
  api_key :: "string option"
  enable_auto_translation :: bool
  auto_translate_on_update :: bool
  default_source_language :: "string option"
  default_target_languages :: "string option"

record field_mapping =
  field_name :: string
  translate :: bool

record translation_map =
  doctype_name :: string
  is_active :: bool
  field_mappings :: "field_mapping list"

text \<open>
  A document: its doctype, its name, its other attributes (\<^verbatim>\<open>hasattr\<close> holds for the
  keys of \<open>attrs\<close>, among them \<^verbatim>\<open>modified\<close>) and the change-tracking list
  \<^verbatim>\<open>_changed\<close>, which may be absent.
\<close>

record document =
  doctype :: string
  name :: string
  attrs :: "string \<rightharpoonup> pyval"
  changed :: "string list option"

text \<open>A row of the Translation Store table.\<close>

record translation_store =
  parent_doctype :: string
  parent_name :: string
  version_id :: string
  language :: string
  translated_content :: string
  translation_status :: string
  edit_mode :: bool
  last_translated :: "datetime option"

text \<open>A call of \<^verbatim>\<open>frappe.enqueue\<close>.\<close>

record enqueued_job =
  job_method :: string
  job_doctype :: string
  job_docname :: string
  job_queue :: string
  job_timeout :: nat

text \<open>A call of \<^verbatim>\<open>requests.post\<close>: the address, the form data, the headers, the timeout.\<close>

record http_request =
  url :: string
  form_text :: string
  form_source_lang :: string
  form_target_lang :: string
  authorization :: string
  content_type :: string
  timeout :: nat

datatype py_exn =
  RequestException | JSONDecodeError | TypeError | KeyError | IndexError | AttributeError
  | DoesNotExistError

text \<open>
  What \<^verbatim>\<open>requests.post\<close> does: it raises, or returns a response with its status code,
  its text and what \<^verbatim>\<open>response.json()\<close> does on it (raise, or return the parsed value).
\<close>

datatype http_outcome =
  Raises py_exn
  | Response (status_code: int) (response_text: string) (response_json: "py_exn + json")

text \<open>One constructor for each call of \<^verbatim>\<open>frappe.log_error\<close>, with the data its message shows.\<close>

datatype log_entry =
  SettingsError
  | ApiKeyMissing
  | NoTargetLanguages
  | NoActiveMap string
  | NoFields string string
  | LanguageError string string string py_exn
  | JobError string string py_exn
  | DeeplApiError int string
  | DeeplRequestError py_exn
  | TranslateTextError py_exn

record env =
  settings :: "translation_settings option"
  translation_maps :: "translation_map list"
  documents :: "string \<times> string \<rightharpoonup> document"
  http_post :: "http_request \<Rightarrow> http_outcome"
  wall_clock :: "nat \<Rightarrow> datetime"

record world =
  store :: "translation_store list"
  queue :: "enqueued_job list"
  outbox :: "http_request list"
  error_log :: "log_entry list"
  clock_reads :: nat

definition log_error :: "log_entry \<Rightarrow> world \<Rightarrow> world" where
  "log_error e w = w\<lparr>error_log := error_log w @ [e]\<rparr>"

text \<open>\<^verbatim>\<open>datetime.now()\<close>: the next reading of the wall clock.\<close>

definition datetime_now :: "env \<Rightarrow> world \<Rightarrow> datetime \<times> world" where
  "datetime_now env w = (wall_clock env (clock_reads w), w\<lparr>clock_reads := Suc (clock_reads w)\<rparr>)"

text \<open>
  \<^verbatim>\<open>get_translation_settings\<close> (lines 360-376). \<open>settings env = None\<close> stands for
  \<^verbatim>\<open>frappe.get_single\<close> raising: the function logs and returns \<^verbatim>\<open>None\<close>.
\<close>

definition get_translation_settings :: "env \<Rightarrow> world \<Rightarrow> translation_settings option \<times> world" where
  "get_translation_settings env w =
     (case settings env of
        None \<Rightarrow> (None, log_error SettingsError w)
      | Some s \<Rightarrow> (Some s, w))"

text \<open>
  The lookup of the active Translation Map of a doctype (lines 49-57 and 114-123):
  \<^verbatim>\<open>frappe.db.get_value\<close> gives the first row with that doctype name and
  \<^verbatim>\<open>is_active = 1\<close>, \<^verbatim>\<open>frappe.get_doc\<close> loads it.
\<close>

definition get_active_translation_map :: "env \<Rightarrow> string \<Rightarrow> translation_map option" where
  "get_active_translation_map env dt =
     find (\<lambda>m. doctype_name m = dt \<and> is_active m) (translation_maps env)"

subsection \<open>The update hook\<close>

text \<open>\<^verbatim>\<open>frappe.enqueue(...)\<close> of lines 73-79.\<close>

definition enqueue_translation :: "document \<Rightarrow> world \<Rightarrow> world" where
  "enqueue_translation doc w =
     w\<lparr>queue := queue w @
       [\<lparr>job_method = ''versioned_translator.logic.translate_to_all_languages'',
         job_doctype = doctype doc, job_docname = name doc,
         job_queue = ''long'', job_timeout = 600\<rparr>]\<rparr>"

text \<open>The loop of lines 63-69: some mapping is translatable and names a changed field.\<close>

definition relevant_fields_changed :: "document \<Rightarrow> translation_map \<Rightarrow> bool" where
  "relevant_fields_changed doc tm =
     (let changed_fields = (case changed doc of None \<Rightarrow> [] | Some cs \<Rightarrow> cs)
      in list_ex (\<lambda>fm. translate fm \<and> field_name fm \<in> set changed_fields) (field_mappings tm))"

text \<open>\<^verbatim>\<open>on_doc_update\<close> (lines 37-85).\<close>

definition on_doc_update :: "env \<Rightarrow> world \<Rightarrow> document \<Rightarrow> world" where
  "on_doc_update env w doc =
     (case get_translation_settings env w of
        (None, w1) \<Rightarrow> w1
      | (Some s, w1) \<Rightarrow>
          if \<not> enable_auto_translation s \<or> \<not> auto_translate_on_update s then w1
          else (case get_active_translation_map env (doctype doc) of
                  None \<Rightarrow> w1
                | Some tm \<Rightarrow>
                    if field_mappings tm = [] then w1
                    else if relevant_fields_changed doc tm then enqueue_translation doc w1
                    else w1))"

subsection \<open>The version id\<close>

text \<open>
  \<^verbatim>\<open>get_version_id\<close> (lines 217-233). With a \<^verbatim>\<open>modified\<close> that is present and true the
  id is the name and the first 12 hexadecimal digits of an MD5 digest; otherwise it is the
  name and the current time, and no digest is taken.
\<close>

definition modified_str :: "pyval \<Rightarrow> string" where
  "modified_str m = (case m of PDatetime d \<Rightarrow> strftime_compact d | _ \<Rightarrow> py_str m)"

definition version_string :: "document \<Rightarrow> pyval \<Rightarrow> string" where
  "version_string doc m = doctype doc @ ''_'' @ name doc @ ''_'' @ modified_str m"

definition version_hash :: "document \<Rightarrow> pyval \<Rightarrow> string" where
  "version_hash doc m = take 12 (md5_hexdigest (encode (version_string doc m)))"

definition version_fallback :: "env \<Rightarrow> world \<Rightarrow> document \<Rightarrow> string \<times> world" where
  "version_fallback env w doc =
     (case datetime_now env w of
        (current_time, w1) \<Rightarrow> (name doc @ ''_'' @ strftime_compact current_time, w1))"

definition get_version_id :: "env \<Rightarrow> world \<Rightarrow> document \<Rightarrow> string \<times> world" where
  "get_version_id env w doc =
     (case attrs doc ''modified'' of
        None \<Rightarrow> version_fallback env w doc
      | Some m \<Rightarrow>
          if truthy m then (name doc @ ''_'' @ version_hash doc m, w)
          else version_fallback env w doc)"

subsection \<open>The Translation Store writers\<close>

fun first_index :: "('a \<Rightarrow> bool) \<Rightarrow> 'a list \<Rightarrow> nat option" where
  "first_index P [] = None"
| "first_index P (x # xs) = (if P x then Some 0 else map_option Suc (first_index P xs))"

definition has_key :: "string \<Rightarrow> string \<Rightarrow> string \<Rightarrow> string \<Rightarrow> translation_store \<Rightarrow> bool" where
  "has_key dt dn vid lang r =
     (parent_doctype r = dt \<and> parent_name r = dn \<and> version_id r = vid \<and> language r = lang)"

text \<open>
  \<^verbatim>\<open>frappe.db.get_value("Translation Store", {...}, "name")\<close>: the first row with the
  four key fields, named here by its position in the table.
\<close>

definition get_store_row ::
  "world \<Rightarrow> string \<Rightarrow> string \<Rightarrow> string \<Rightarrow> string \<Rightarrow> nat option" where
  "get_store_row w dt dn vid lang = first_index (has_key dt dn vid lang) (store w)"

text \<open>\<^verbatim>\<open>save_translation_to_store\<close> (lines 236-279).\<close>

definition save_translation_to_store ::
  "env \<Rightarrow> world \<Rightarrow> string \<Rightarrow> string \<Rightarrow> string \<Rightarrow> string \<Rightarrow> (string \<times> json) list \<Rightarrow> world" where
  "save_translation_to_store env w dt dn vid lang content =
     (case get_store_row w dt dn vid lang of
        Some i \<Rightarrow>
          (case datetime_now env w of
             (now, w1) \<Rightarrow>
               w1\<lparr>store := (store w1)[i := (store w1 ! i)
                      \<lparr>translated_content := json_dumps (JObj content),
                       translation_status := ''Completed'',
                       last_translated := Some now\<rparr>]\<rparr>)
      | None \<Rightarrow>
          (case datetime_now env w of
             (now, w1) \<Rightarrow>
               w1\<lparr>store := store w1 @
                 [\<lparr>parent_doctype = dt, parent_name = dn, version_id = vid, language = lang,
                   translated_content = json_dumps (JObj content),
                   translation_status = ''Completed'',
                   edit_mode = False,
                   last_translated = Some now\<rparr>]\<rparr>))"

text \<open>\<^verbatim>\<open>update_translation_status\<close> (lines 282-320).\<close>

definition update_translation_status ::
  "world \<Rightarrow> string \<Rightarrow> string \<Rightarrow> string \<Rightarrow> string \<Rightarrow> string \<Rightarrow> world" where
  "update_translation_status w dt dn vid lang status =
     (case get_store_row w dt dn vid lang of
        Some i \<Rightarrow>
          w\<lparr>store := (store w)[i := (store w ! i)\<lparr>translation_status := status\<rparr>]\<rparr>
      | None \<Rightarrow>
          w\<lparr>store := store w @
            [\<lparr>parent_doctype = dt, parent_name = dn, version_id = vid, language = lang,
              translated_content = ''{}'',
              translation_status = status,
              edit_mode = False,
              last_translated = None\<rparr>]\<rparr>)"

subsection \<open>The translation client\<close>

text \<open>\<^verbatim>\<open>key in x\<close> for a string key: membership in a dict, a list or a string.\<close>

fun py_contains :: "string \<Rightarrow> json \<Rightarrow> py_exn + bool" where
  "py_contains k (JObj kvs) = Inr (k \<in> fst ` set kvs)"
| "py_contains k (JArr xs) = Inr (JStr k \<in> set xs)"
| "py_contains k (JStr s) = Inr (str_contains k s)"
| "py_contains k _ = Inl TypeError"

text \<open>\<^verbatim>\<open>x[key]\<close> for a string key: only a dict has one.\<close>

fun py_getitem :: "json \<Rightarrow> string \<Rightarrow> py_exn + json" where
  "py_getitem (JObj kvs) k = (case map_of kvs k of None \<Rightarrow> Inl KeyError | Some v \<Rightarrow> Inr v)"
| "py_getitem _ k = Inl TypeError"

fun py_len :: "json \<Rightarrow> py_exn + nat" where
  "py_len (JObj kvs) = Inr (length kvs)"
| "py_len (JArr xs) = Inr (length xs)"
| "py_len (JStr s) = Inr (length s)"
| "py_len _ = Inl TypeError"

text \<open>\<^verbatim>\<open>x[0]\<close>: the first element of a list, the first character of a string; a dict
  parsed from JSON has no key \<^verbatim>\<open>0\<close>.\<close>

fun py_first :: "json \<Rightarrow> py_exn + json" where
  "py_first (JArr []) = Inl IndexError"
| "py_first (JArr (x # xs)) = Inr x"
| "py_first (JStr []) = Inl IndexError"
| "py_first (JStr (c # cs)) = Inr (JStr [c])"
| "py_first (JObj kvs) = Inl KeyError"
| "py_first _ = Inl TypeError"

text \<open>\<^verbatim>\<open>x.get(key)\<close>: only a dict has the method; a missing key gives \<^verbatim>\<open>None\<close>.\<close>

fun py_get :: "json \<Rightarrow> string \<Rightarrow> py_exn + json" where
  "py_get (JObj kvs) k = Inr (case map_of kvs k of None \<Rightarrow> JNull | Some v \<Rightarrow> v)"
| "py_get _ k = Inl AttributeError"

text \<open>
  Lines 200-202. \<open>Inr None\<close> is falling through the \<^verbatim>\<open>if\<close> to the \<^verbatim>\<open>return None\<close> of
  line 214, \<open>Inr (Some v)\<close> the \<^verbatim>\<open>return\<close> of line 202.
\<close>

definition first_translation :: "json \<Rightarrow> py_exn + json option" where
  "first_translation result =
     (case py_contains ''translations'' result of
        Inl e \<Rightarrow> Inl e
      | Inr False \<Rightarrow> Inr None
      | Inr True \<Rightarrow>
          (case py_getitem result ''translations'' of
             Inl e \<Rightarrow> Inl e
           | Inr ts \<Rightarrow>
               (case py_len ts of
                  Inl e \<Rightarrow> Inl e
                | Inr n \<Rightarrow>
                    if n > 0 then
                      (case py_first ts of
                         Inl e \<Rightarrow> Inl e
                       | Inr t \<Rightarrow>
                           (case py_get t ''text'' of
                              Inl e \<Rightarrow> Inl e
                            | Inr v \<Rightarrow> Inr (Some v)))
                    else Inr None)))"

text \<open>The request of lines 180-197.\<close>

definition deepl_request :: "string \<Rightarrow> string \<Rightarrow> string \<Rightarrow> string \<Rightarrow> http_request" where
  "deepl_request key txt source_lang target_lang =
     \<lparr>url = ''https://api-free.deepl.com/v2/translate'',
      form_text = txt,
      form_source_lang = str_upper source_lang,
      form_target_lang = str_upper target_lang,
      authorization = ''DeepL-Auth-Key '' @ key,
      content_type = ''application/x-www-form-urlencoded'',
      timeout = 30\<rparr>"

text \<open>The body of the \<^verbatim>\<open>try\<close> of \<^verbatim>\<open>translate_text\<close> (lines 179-207).\<close>

definition translate_text_try ::
  "env \<Rightarrow> world \<Rightarrow> string \<Rightarrow> string \<Rightarrow> string \<Rightarrow> string \<Rightarrow> (py_exn + json option) \<times> world" where
  "translate_text_try env w key txt source_lang target_lang =
     (let req = deepl_request key txt source_lang target_lang;
          w1 = w\<lparr>outbox := outbox w @ [req]\<rparr>
      in case http_post env req of
           Raises e \<Rightarrow> (Inl e, w1)
         | Response status body parsed \<Rightarrow>
             if status = 200 then
               (case parsed of
                  Inl e \<Rightarrow> (Inl e, w1)
                | Inr result \<Rightarrow> (first_translation result, w1))
             else (Inr None, log_error (DeeplApiError status body) w1))"

text \<open>
  \<^verbatim>\<open>translate_text\<close> (lines 173-214): both handlers log and fall through to
  \<^verbatim>\<open>return None\<close>, which is \<open>JNull\<close>. The result is a sum so that the function can stand
  where the job calls its client.
\<close>

definition translate_text ::
  "env \<Rightarrow> world \<Rightarrow> string \<Rightarrow> string \<Rightarrow> string \<Rightarrow> string \<Rightarrow> (py_exn + json) \<times> world" where
  "translate_text env w key txt source_lang target_lang =
     (case translate_text_try env w key txt source_lang target_lang of
        (Inl e, w1) \<Rightarrow>
          (Inr JNull,
           log_error (if e = RequestException then DeeplRequestError e else TranslateTextError e) w1)
      | (Inr None, w1) \<Rightarrow> (Inr JNull, w1)
      | (Inr (Some v), w1) \<Rightarrow> (Inr v, w1))"

subsection \<open>The translation job\<close>

text \<open>Line 111: the configured codes, stripped and upper-cased, the empty ones left out.\<close>

definition target_languages :: "string \<Rightarrow> string list" where
  "target_languages target_languages_str =
     map (\<lambda>lang. str_upper (str_strip lang))
       (filter (\<lambda>lang. str_strip lang \<noteq> []) (str_split (CHR '','') target_languages_str))"

text \<open>
  Lines 129-134: the fields to translate, a dict in insertion order. One turn of the loop
  is \<open>collect_field\<close>.
\<close>

definition collect_field ::
  "document \<Rightarrow> (string \<times> string) list \<Rightarrow> field_mapping \<Rightarrow> (string \<times> string) list" where
  "collect_field doc acc fm =
     (if translate fm then
        (case attrs doc (field_name fm) of
           None \<Rightarrow> acc
         | Some field_value \<Rightarrow>
             if truthy field_value then AList.update (field_name fm) (py_str field_value) acc
             else acc)
      else acc)"

definition fields_to_translate :: "document \<Rightarrow> translation_map \<Rightarrow> (string \<times> string) list" where
  "fields_to_translate doc tm = foldl (collect_field doc) [] (field_mappings tm)"

text \<open>
  The client the job calls at line 150. \<^verbatim>\<open>translate_text\<close> is the module's own; the job
  is written over any client so that the \<^verbatim>\<open>except\<close> of lines 164-167 has a caller that
  raises.
\<close>

type_synonym client = "world \<Rightarrow> string \<Rightarrow> string \<Rightarrow> string \<Rightarrow> string \<Rightarrow> (py_exn + json) \<times> world"

text \<open>Lines 148-152: the loop over the fields, left at the first exception.\<close>

fun translate_fields ::
  "client \<Rightarrow> world \<Rightarrow> string \<Rightarrow> string \<Rightarrow> string \<Rightarrow> (string \<times> string) list
     \<Rightarrow> (string \<times> json) list \<Rightarrow> (py_exn + (string \<times> json) list) \<times> world" where
  "translate_fields tr w key source_lang target_lang [] translated_fields =
     (Inr translated_fields, w)"
| "translate_fields tr w key source_lang target_lang ((fname, fvalue) # rest) translated_fields =
     (case tr w key fvalue source_lang target_lang of
        (Inl e, w1) \<Rightarrow> (Inl e, w1)
      | (Inr translated_text, w1) \<Rightarrow>
          translate_fields tr w1 key source_lang target_lang rest
            (if json_truthy translated_text
             then AList.update fname translated_text translated_fields
             else translated_fields))"

text \<open>Lines 146-167: one target language, with its \<^verbatim>\<open>try\<close> and \<^verbatim>\<open>except\<close>.\<close>

definition translate_language ::
  "client \<Rightarrow> env \<Rightarrow> string \<Rightarrow> string \<Rightarrow> string \<Rightarrow> string \<Rightarrow> string
     \<Rightarrow> (string \<times> string) list \<Rightarrow> world \<Rightarrow> string \<Rightarrow> world" where
  "translate_language tr env dt dn vid key source_lang to_translate w target_lang =
     (case translate_fields tr w key source_lang target_lang to_translate [] of
        (Inr translated_fields, w1) \<Rightarrow>
          if translated_fields \<noteq> []
          then save_translation_to_store env w1 dt dn vid (str_lower target_lang) translated_fields
          else w1
      | (Inl e, w1) \<Rightarrow>
          update_translation_status (log_error (LanguageError dt dn target_lang e) w1)
            dt dn vid target_lang ''Failed'')"

text \<open>\<^verbatim>\<open>translate_to_all_languages\<close> (lines 88-170) over a client.\<close>

definition translate_to_all_languages_via ::
  "client \<Rightarrow> env \<Rightarrow> world \<Rightarrow> string \<Rightarrow> string \<Rightarrow> world" where
  "translate_to_all_languages_via tr env w dt dn =
     (case documents env (dt, dn) of
        None \<Rightarrow> log_error (JobError dt dn DoesNotExistError) w
      | Some doc \<Rightarrow>
          (case get_translation_settings env w of
             (None, w1) \<Rightarrow> log_error ApiKeyMissing w1
           | (Some s, w1) \<Rightarrow>
               if py_or (api_key s) [] = [] then log_error ApiKeyMissing w1
               else
                 let key = py_or (api_key s) [];
                     source_language = py_or (default_source_language s) ''de'';
                     target_languages_str = py_or (default_target_languages s) []
                 in
                   if target_languages_str = [] then log_error NoTargetLanguages w1
                   else
                     (case get_active_translation_map env dt of
                        None \<Rightarrow> log_error (NoActiveMap dt) w1
                      | Some tm \<Rightarrow>
                          if field_mappings tm = [] then log_error (NoActiveMap dt) w1
                          else
                            let to_translate = fields_to_translate doc tm in
                              if to_translate = [] then log_error (NoFields dt dn) w1
                              else
                                (case get_version_id env w1 doc of
                                   (vid, w2) \<Rightarrow>
                                     foldl (translate_language tr env dt dn vid key
                                              source_language to_translate)
                                       w2 (target_languages target_languages_str)))))"

text \<open>\<^verbatim>\<open>translate_to_all_languages\<close> as the module runs it: the client is \<^verbatim>\<open>translate_text\<close>.\<close>

definition translate_to_all_languages :: "env \<Rightarrow> world \<Rightarrow> string \<Rightarrow> string \<Rightarrow> world" where
  "translate_to_all_languages env w dt dn =
     translate_to_all_languages_via (translate_text env) env w dt dn"

subsection \<open>Vocabulary of the properties\<close>

text \<open>
  The gate of the update hook, in the words of its description: both switches of the
  settings are on, the lookup finds an active Translation Map for the document's type that
  has a translatable field, and a changed field is a mapped translatable field.
\<close>

definition update_gate :: "env \<Rightarrow> document \<Rightarrow> bool" where
  "update_gate env doc =
     (case settings env of
        None \<Rightarrow> False
      | Some s \<Rightarrow>
          enable_auto_translation s \<and> auto_translate_on_update s \<and>
          (case get_active_translation_map env (doctype doc) of
             None \<Rightarrow> False
           | Some tm \<Rightarrow>
               list_ex translate (field_mappings tm) \<and>
               list_ex (\<lambda>fm. translate fm \<and>
                   field_name fm \<in> set (case changed doc of None \<Rightarrow> [] | Some cs \<Rightarrow> cs))
                 (field_mappings tm)))"

definition is_hex_char :: "char \<Rightarrow> bool" where
  "is_hex_char c =
     (let n = (of_char c :: nat) in (48 \<le> n \<and> n \<le> 57) \<or> (97 \<le> n \<and> n \<le> 102))"

text \<open>The form \<^verbatim>\<open><name>_<12 hexadecimal digits>\<close> of a version id.\<close>

definition is_hashed_id :: "string \<Rightarrow> string \<Rightarrow> bool" where
  "is_hashed_id nm vid =
     (length vid = length nm + 13 \<and> take (length nm + 1) vid = nm @ ''_''
      \<and> list_all is_hex_char (drop (length nm + 1) vid))"

text \<open>The number of rows of a table that carry a key.\<close>

definition key_count ::
  "string \<Rightarrow> string \<Rightarrow> string \<Rightarrow> string \<Rightarrow> translation_store list \<Rightarrow> nat" where
  "key_count dt dn vid lang rows = length (filter (has_key dt dn vid lang) rows)"

text \<open>
  The text of the first translation in a parsed answer of the provider: the answer is an
  object whose \<^verbatim>\<open>translations\<close> is a list that starts with an object, and the text is that
  object's \<^verbatim>\<open>text\<close>. \<open>JNull\<close> when there is none.
\<close>

fun text_of_result :: "json \<Rightarrow> json" where
  "text_of_result (JObj kvs) =
     (case map_of kvs ''translations'' of
        Some (JArr (JObj t # ts)) \<Rightarrow> (case map_of t ''text'' of Some v \<Rightarrow> v | None \<Rightarrow> JNull)
      | _ \<Rightarrow> JNull)"
| "text_of_result _ = JNull"

text \<open>What the provider's answer yields: the text above for a status of 200, else \<open>JNull\<close>.\<close>

definition provider_text :: "http_outcome \<Rightarrow> json" where
  "provider_text out =
     (case out of
        Raises e \<Rightarrow> JNull
      | Response status body parsed \<Rightarrow>
          (case parsed of
             Inl e \<Rightarrow> JNull
           | Inr result \<Rightarrow> if status = 200 then text_of_result result else JNull))"

subsection \<open>A worked scenario\<close>

text \<open>
  The settings name the key \<^verbatim>\<open>K\<close>, the source \<^verbatim>\<open>de\<close> and the targets \<^verbatim>\<open>EN,FR\<close>; the
  map of \<^verbatim>\<open>Article\<close> translates \<^verbatim>\<open>title\<close> and not \<^verbatim>\<open>internal_id\<close>; the document
  \<^verbatim>\<open>Article/A1\<close> has the title \<^verbatim>\<open>Hallo\<close> and was modified on 2024-01-01 at 10:00:00.
  The endpoint answers \<^verbatim>\<open>Hello\<close> to a request for EN and fails in transport for every
  other language. The clock shows 10:00:00 plus one second for each reading taken.
\<close>

definition article_settings :: translation_settings where
  "article_settings =
     \<lparr>api_key = Some ''K'', enable_auto_translation = True, auto_translate_on_update = True,
      default_source_language = Some ''de'', default_target_languages = Some ''EN,FR''\<rparr>"

definition article_map :: translation_map where
  "article_map =
     \<lparr>doctype_name = ''Article'', is_active = True,
      field_mappings = [\<lparr>field_name = ''title'', translate = True\<rparr>,
                        \<lparr>field_name = ''internal_id'', translate = False\<rparr>]\<rparr>"

definition article_time :: "nat \<Rightarrow> nat \<Rightarrow> datetime" where
  "article_time s us =
     \<lparr>year = 2024, month = 1, day = 1, hour = 10, minute = 0, second = s, microsecond = us\<rparr>"

definition article_doc :: document where
  "article_doc =
     \<lparr>doctype = ''Article'', name = ''A1'',
      attrs = [''title'' \<mapsto> PStr ''Hallo'', ''internal_id'' \<mapsto> PStr ''X-17'',
               ''modified'' \<mapsto> PDatetime (article_time 0 0)],
      changed = Some [''title'']\<rparr>"

definition hello_response :: http_outcome where
  "hello_response =
     Response 200 [] (Inr (JObj [(''translations'', JArr [JObj [(''text'', JStr ''Hello'')]])]))"

definition article_endpoint :: "http_request \<Rightarrow> http_outcome" where
  "article_endpoint req =
     (if form_target_lang req = ''EN'' then hello_response else Raises RequestException)"

definition article_env :: env where
  "article_env =
     \<lparr>settings = Some article_settings, translation_maps = [article_map],
      documents = [(''Article'', ''A1'') \<mapsto> article_doc],
      http_post = article_endpoint,
      wall_clock = (\<lambda>n. article_time n 0)\<rparr>"

definition empty_world :: world where
  "empty_world = \<lparr>store = [], queue = [], outbox = [], error_log = [], clock_reads = 0\<rparr>"

text \<open>A client in the place of \<^verbatim>\<open>translate_text\<close> that raises for every language but EN.\<close>

definition raising_client :: client where
  "raising_client w key txt source_lang target_lang =
     (if target_lang = ''EN'' then (Inr (JStr ''Hello''), w) else (Inl RequestException, w))"

text \<open>The version id of the scenario's document.\<close>

definition article_version :: string where
  "article_version = ''A1_'' @ take 12 (md5_hexdigest (encode ''Article_A1_20240101100000''))"

text \<open>A row of the scenario's document and version.\<close>

definition article_row :: "string \<Rightarrow> string \<Rightarrow> string \<Rightarrow> datetime option \<Rightarrow> translation_store" where
  "article_row lang content status t =
     \<lparr>parent_doctype = ''Article'', parent_name = ''A1'',
      version_id = article_version,
      language = lang, translated_content = content, translation_status = status,
      edit_mode = False, last_translated = t\<rparr>"

text \<open>The text \<^verbatim>\<open>{"title": "Hello"}\<close>.\<close>

definition title_hello :: string where
  "title_hello =
     ''{'' @ [CHR 0x22] @ ''title'' @ [CHR 0x22] @ '': '' @ [CHR 0x22] @ ''Hello'' @ [CHR 0x22] @ ''}''"

section \<open>Properties\<close>

subsection \<open>Looking a row up\<close>

lemma first_index_None_iff: "first_index P xs = None \<longleftrightarrow> (\<forall>x\<in>set xs. \<not> P x)"
  by (induction xs) auto

lemma first_index_SomeD:
  "first_index P xs = Some i \<Longrightarrow> i < length xs \<and> P (xs ! i) \<and> (\<forall>j<i. \<not> P (xs ! j))"
proof (induction xs arbitrary: i)
  case Nil
  then show ?case by simp
next
  case (Cons x xs)
  show ?case
  proof (cases "P x")
    case True
    with Cons.prems show ?thesis by simp
  next
    case False
    with Cons.prems obtain k where k: "first_index P xs = Some k" and i: "i = Suc k"
      by auto
    from Cons.IH [OF k] False i show ?thesis
      by (auto simp: less_Suc_eq_0_disj)
  qed
qed

lemma first_index_append_new:
  "first_index P xs = None \<Longrightarrow> P y \<Longrightarrow> first_index P (xs @ [y]) = Some (length xs)"
  by (induction xs) (auto split: if_splits)

lemma first_index_update_keep:
  "first_index P xs = Some i \<Longrightarrow> P y \<Longrightarrow> first_index P (xs[i := y]) = Some i"
proof (induction xs arbitrary: i)
  case Nil
  then show ?case by simp
next
  case (Cons x xs)
  then show ?case
    by (cases "P x") auto
qed


subsection \<open>The Translation Store writers\<close>

text \<open>
  \<^bold>\<open>C5\<close>. \<^verbatim>\<open>update_translation_status\<close> on a key that no row of the table carries appends
  one row with the content \<^verbatim>\<open>{}\<close>, the given status, \<^verbatim>\<open>edit_mode\<close> off and no translation
  time, and changes nothing else. On a key that some row carries it changes the
  \<^verbatim>\<open>translation_status\<close> of the first such row and nothing else: the other fields of that
  row, the other rows and the rest of the world stay as they were.
\<close>

theorem mark_status_frame:
  "((\<forall>r\<in>set (store w). \<not> has_key dt dn vid lang r) \<longrightarrow>
      update_translation_status w dt dn vid lang status =
        w\<lparr>store := store w @
          [\<lparr>parent_doctype = dt, parent_name = dn, version_id = vid, language = lang,
            translated_content = ''{}'', translation_status = status, edit_mode = False,
            last_translated = None\<rparr>]\<rparr>)
   \<and> ((\<exists>r\<in>set (store w). has_key dt dn vid lang r) \<longrightarrow>
      (\<exists>i<length (store w). has_key dt dn vid lang (store w ! i)
         \<and> (\<forall>j<i. \<not> has_key dt dn vid lang (store w ! j))
         \<and> update_translation_status w dt dn vid lang status =
             w\<lparr>store := (store w)[i := (store w ! i)\<lparr>translation_status := status\<rparr>]\<rparr>))"
proof (intro conjI impI)
  assume "\<forall>r\<in>set (store w). \<not> has_key dt dn vid lang r"
  then have "get_store_row w dt dn vid lang = None"
    by (simp add: get_store_row_def first_index_None_iff)
  then show "update_translation_status w dt dn vid lang status =
        w\<lparr>store := store w @
          [\<lparr>parent_doctype = dt, parent_name = dn, version_id = vid, language = lang,
            translated_content = ''{}'', translation_status = status, edit_mode = False,
            last_translated = None\<rparr>]\<rparr>"
    by (simp add: update_translation_status_def)
next
  assume "\<exists>r\<in>set (store w). has_key dt dn vid lang r"
  then have "get_store_row w dt dn vid lang \<noteq> None"
    by (simp add: get_store_row_def first_index_None_iff)
  then obtain i where i: "get_store_row w dt dn vid lang = Some i"
    by auto
  then have "i < length (store w) \<and> has_key dt dn vid lang (store w ! i)
      \<and> (\<forall>j<i. \<not> has_key dt dn vid lang (store w ! j))"
    unfolding get_store_row_def by (rule first_index_SomeD)
  moreover from i have "update_translation_status w dt dn vid lang status =
             w\<lparr>store := (store w)[i := (store w ! i)\<lparr>translation_status := status\<rparr>]\<rparr>"
    by (simp add: update_translation_status_def)
  ultimately show "\<exists>i<length (store w). has_key dt dn vid lang (store w ! i)
         \<and> (\<forall>j<i. \<not> has_key dt dn vid lang (store w ! j))
         \<and> update_translation_status w dt dn vid lang status =
             w\<lparr>store := (store w)[i := (store w ! i)\<lparr>translation_status := status\<rparr>]\<rparr>"
    by blast
qed

theorem mark_status_frame_witness:
  "update_translation_status
       (empty_world\<lparr>store := [article_row ''en'' title_hello ''Completed'' (Some (article_time 0 0))]\<rparr>)
       ''Article'' ''A1'' (version_id (article_row ''en'' [] [] None)) ''FR'' ''Failed''
     = empty_world\<lparr>store := [article_row ''en'' title_hello ''Completed'' (Some (article_time 0 0)),
                               article_row ''FR'' ''{}'' ''Failed'' None]\<rparr>
   \<and> update_translation_status
       (empty_world\<lparr>store := [article_row ''en'' title_hello ''Completed'' (Some (article_time 0 0))]\<rparr>)
       ''Article'' ''A1'' (version_id (article_row ''en'' [] [] None)) ''en'' ''Failed''
     = empty_world\<lparr>store := [article_row ''en'' title_hello ''Failed'' (Some (article_time 0 0))]\<rparr>"
proof -
  let ?w = "empty_world\<lparr>store := [article_row ''en'' title_hello ''Completed'' (Some (article_time 0 0))]\<rparr>"
  let ?v = "version_id (article_row ''en'' [] [] None)"
  have absent: "\<forall>r\<in>set (store ?w). \<not> has_key ''Article'' ''A1'' ?v ''FR'' r"
    by (simp add: has_key_def article_row_def)
  have present: "\<exists>r\<in>set (store ?w). has_key ''Article'' ''A1'' ?v ''en'' r"
    by (simp add: has_key_def article_row_def)
  from mark_status_frame [of ?w "''Article''" "''A1''" ?v "''FR''" "''Failed''", THEN conjunct1] absent
  have 1: "update_translation_status ?w ''Article'' ''A1'' ?v ''FR'' ''Failed''
     = empty_world\<lparr>store := [article_row ''en'' title_hello ''Completed'' (Some (article_time 0 0)),
                               article_row ''FR'' ''{}'' ''Failed'' None]\<rparr>"
    by (simp add: article_row_def)
  from mark_status_frame [of ?w "''Article''" "''A1''" ?v "''en''" "''Failed''", THEN conjunct2] present
  have 2: "update_translation_status ?w ''Article'' ''A1'' ?v ''en'' ''Failed''
     = empty_world\<lparr>store := [article_row ''en'' title_hello ''Failed'' (Some (article_time 0 0))]\<rparr>"
    by (auto simp: article_row_def)
  from 1 2 show ?thesis by simp
qed

text \<open>
  \<^bold>\<open>C9\<close>. Both writers leave the \<^verbatim>\<open>edit_mode\<close> of every row that was in the table as it
  was, position by position, and the one row either of them may append has \<^verbatim>\<open>edit_mode\<close>
  off.
\<close>

theorem writers_keep_edit_mode:
  "map edit_mode (store (save_translation_to_store env w dt dn vid lang content)) =
     map edit_mode (store w) @ (if get_store_row w dt dn vid lang = None then [False] else [])
   \<and> map edit_mode (store (update_translation_status w dt dn vid lang status)) =
     map edit_mode (store w) @ (if get_store_row w dt dn vid lang = None then [False] else [])"
  by (auto simp: save_translation_to_store_def update_translation_status_def datetime_now_def
        map_update list_update_same_conv get_store_row_def dest!: first_index_SomeD
        split: option.splits)

theorem writers_keep_edit_mode_witness:
  "map edit_mode (store (save_translation_to_store article_env
       (empty_world\<lparr>store := [(article_row ''en'' ''{}'' ''Failed'' None)\<lparr>edit_mode := True\<rparr>]\<rparr>)
       ''Article'' ''A1'' (version_id (article_row ''en'' [] [] None)) ''en''
       [(''title'', JStr ''Hello'')])) = [True]
   \<and> map edit_mode (store (update_translation_status
       (empty_world\<lparr>store := [(article_row ''en'' ''{}'' ''Failed'' None)\<lparr>edit_mode := True\<rparr>]\<rparr>)
       ''Article'' ''A1'' (version_id (article_row ''en'' [] [] None)) ''FR'' ''Failed''))
     = [True, False]"
  using writers_keep_edit_mode [of article_env
      "empty_world\<lparr>store := [(article_row ''en'' ''{}'' ''Failed'' None)\<lparr>edit_mode := True\<rparr>]\<rparr>"
      "''Article''" "''A1''" "version_id (article_row ''en'' [] [] None)" "''en''"
      "[(''title'', JStr ''Hello'')]"]
    writers_keep_edit_mode [of article_env
      "empty_world\<lparr>store := [(article_row ''en'' ''{}'' ''Failed'' None)\<lparr>edit_mode := True\<rparr>]\<rparr>"
      "''Article''" "''A1''" "version_id (article_row ''en'' [] [] None)" "''FR''" "[]" "''Failed''"]
  by (simp add: get_store_row_def has_key_def article_row_def)

subsection \<open>The update hook\<close>

text \<open>
  \<^bold>\<open>C7\<close>. \<^verbatim>\<open>on_doc_update\<close> enqueues the translation job exactly when the gate holds:
  both switches on, an active Translation Map for the document's type (the one the lookup
  returns) with a translatable field, and a changed field that is a mapped translatable
  field. It then enqueues one job, for the document's doctype and name, on the long queue
  with a timeout of 600. With \<^verbatim>\<open>auto_translate_on_update\<close> off the queue is never touched.
\<close>

theorem update_hook_gate:
  "queue (on_doc_update env w doc) =
     (if update_gate env doc
      then queue w @
        [\<lparr>job_method = ''versioned_translator.logic.translate_to_all_languages'',
          job_doctype = doctype doc, job_docname = name doc,
          job_queue = ''long'', job_timeout = 600\<rparr>]
      else queue w)
   \<and> (\<forall>s. settings env = Some s \<and> \<not> auto_translate_on_update s \<longrightarrow>
         queue (on_doc_update env w doc) = queue w)"
  by (auto simp: on_doc_update_def update_gate_def get_translation_settings_def log_error_def
        enqueue_translation_def relevant_fields_changed_def list_ex_iff
        split: option.splits)

theorem update_hook_gate_witness:
  "queue (on_doc_update article_env empty_world article_doc) =
     [\<lparr>job_method = ''versioned_translator.logic.translate_to_all_languages'',
       job_doctype = ''Article'', job_docname = ''A1'', job_queue = ''long'', job_timeout = 600\<rparr>]
   \<and> queue (on_doc_update
        (article_env\<lparr>settings := Some (article_settings\<lparr>auto_translate_on_update := False\<rparr>)\<rparr>)
        empty_world article_doc) = []"
proof -
  have g: "update_gate article_env article_doc"
    by (simp add: update_gate_def article_env_def article_settings_def article_doc_def
          article_map_def get_active_translation_map_def)
  have s: "settings (article_env\<lparr>settings := Some (article_settings\<lparr>auto_translate_on_update := False\<rparr>)\<rparr>)
             = Some (article_settings\<lparr>auto_translate_on_update := False\<rparr>)
           \<and> \<not> auto_translate_on_update (article_settings\<lparr>auto_translate_on_update := False\<rparr>)"
    by simp
  from update_hook_gate [of article_env empty_world article_doc, THEN conjunct1] g
  have 1: "queue (on_doc_update article_env empty_world article_doc) =
     [\<lparr>job_method = ''versioned_translator.logic.translate_to_all_languages'',
       job_doctype = ''Article'', job_docname = ''A1'', job_queue = ''long'', job_timeout = 600\<rparr>]"
    by (simp add: empty_world_def article_doc_def)
  from update_hook_gate [of "article_env\<lparr>settings := Some (article_settings\<lparr>auto_translate_on_update := False\<rparr>)\<rparr>"
      empty_world article_doc, THEN conjunct2] s
  have 2: "queue (on_doc_update
        (article_env\<lparr>settings := Some (article_settings\<lparr>auto_translate_on_update := False\<rparr>)\<rparr>)
        empty_world article_doc) = []"
    by (auto simp: empty_world_def)
  from 1 2 show ?thesis by simp
qed

subsection \<open>The translation client\<close>

lemma py_getitem_Inr:
  "py_getitem result k = Inr ts \<Longrightarrow> \<exists>kvs. result = JObj kvs \<and> map_of kvs k = Some ts"
  by (cases result) (auto split: option.splits)

lemma py_get_Inr:
  "py_get t k = Inr v \<Longrightarrow>
     \<exists>tk. t = JObj tk \<and> v = (case map_of tk k of None \<Rightarrow> JNull | Some u \<Rightarrow> u)"
  by (cases t) auto

lemma py_first_JObj:
  "py_first ts = Inr (JObj tk) \<Longrightarrow> \<exists>rest. ts = JArr (JObj tk # rest)"
proof (cases ts)
  case (JArr xs)
  assume "py_first ts = Inr (JObj tk)"
  with JArr show ?thesis by (cases xs) auto
next
  case (JStr s)
  assume "py_first ts = Inr (JObj tk)"
  with JStr show ?thesis by (cases s) auto
qed auto

lemma first_translation_SomeD:
  assumes "first_translation result = Inr (Some v)"
  shows "\<exists>kvs t ts. result = JObj kvs \<and> map_of kvs ''translations'' = Some (JArr (JObj t # ts))
           \<and> v = (case map_of t ''text'' of None \<Rightarrow> JNull | Some u \<Rightarrow> u)"
proof -
  from assms obtain ts n t where
    g: "py_getitem result ''translations'' = Inr ts" and
    f: "py_first ts = Inr t" and
    t: "py_get t ''text'' = Inr v"
    by (auto simp: first_translation_def split: sum.splits bool.splits if_splits)
  from py_getitem_Inr [OF g] obtain kvs where
    r: "result = JObj kvs" and m: "map_of kvs ''translations'' = Some ts"
    by blast
  from py_get_Inr [OF t] obtain tk where
    tk: "t = JObj tk" and v: "v = (case map_of tk ''text'' of None \<Rightarrow> JNull | Some u \<Rightarrow> u)"
    by blast
  from f tk py_first_JObj obtain rest where "ts = JArr (JObj tk # rest)"
    by blast
  with r m v show ?thesis by blast
qed

lemma first_translation_SomeI:
  assumes "map_of kvs ''translations'' = Some (JArr (JObj t # ts))"
  shows "first_translation (JObj kvs) =
           Inr (Some (case map_of t ''text'' of None \<Rightarrow> JNull | Some u \<Rightarrow> u))"
proof -
  from assms have "(''translations'', JArr (JObj t # ts)) \<in> set kvs"
    by (rule map_of_SomeD)
  then have "''translations'' \<in> fst ` set kvs"
    by force
  with assms show ?thesis
    by (simp add: first_translation_def)
qed

lemma text_of_result_not_null:
  assumes "text_of_result result \<noteq> JNull"
  shows "\<exists>kvs t ts. result = JObj kvs \<and> map_of kvs ''translations'' = Some (JArr (JObj t # ts))
           \<and> text_of_result result = (case map_of t ''text'' of None \<Rightarrow> JNull | Some u \<Rightarrow> u)"
proof (cases result)
  case (JObj kvs)
  show ?thesis
  proof (cases "map_of kvs ''translations''")
    case None
    with JObj assms show ?thesis by simp
  next
    case (Some ts)
    show ?thesis
    proof (cases ts)
      case (JArr xs)
      show ?thesis
      proof (cases xs)
        case Nil
        with JObj Some JArr assms show ?thesis by simp
      next
        case (Cons x rest)
        with JObj Some JArr assms show ?thesis by (cases x) auto
      qed
    qed (use JObj Some assms in auto)
  qed
qed (use assms in auto)

lemma first_translation_text:
  "(case first_translation result of Inl e \<Rightarrow> JNull | Inr None \<Rightarrow> JNull | Inr (Some v) \<Rightarrow> v)
     = text_of_result result"
proof (cases "text_of_result result = JNull")
  case False
  from text_of_result_not_null [OF False] obtain kvs t ts where
    "result = JObj kvs" "map_of kvs ''translations'' = Some (JArr (JObj t # ts))"
    "text_of_result result = (case map_of t ''text'' of None \<Rightarrow> JNull | Some u \<Rightarrow> u)"
    by blast
  then show ?thesis
    by (simp add: first_translation_SomeI)
next
  case True
  show ?thesis
  proof (cases "first_translation result")
    case (Inl e)
    with True show ?thesis by simp
  next
    case (Inr r)
    show ?thesis
    proof (cases r)
      case None
      with Inr True show ?thesis by simp
    next
      case (Some v)
      with Inr first_translation_SomeD obtain kvs t ts where
        "result = JObj kvs" "map_of kvs ''translations'' = Some (JArr (JObj t # ts))"
        "v = (case map_of t ''text'' of None \<Rightarrow> JNull | Some u \<Rightarrow> u)"
        by blast
      with Inr Some show ?thesis by simp
    qed
  qed
qed

lemma translate_text_fst:
  "fst (translate_text env w key txt source_lang target_lang) =
     Inr (provider_text (http_post env (deepl_request key txt source_lang target_lang)))"
proof (cases "http_post env (deepl_request key txt source_lang target_lang)")
  case (Raises e)
  then show ?thesis
    by (simp add: translate_text_def translate_text_try_def provider_text_def Let_def)
next
  case (Response status body parsed)
  show ?thesis
  proof (cases parsed)
    case (Inl e)
    with Response show ?thesis
      by (simp add: translate_text_def translate_text_try_def provider_text_def Let_def)
  next
    case (Inr result)
    show ?thesis
    proof (cases "status = 200")
      case False
      with Response Inr show ?thesis
        by (simp add: translate_text_def translate_text_try_def provider_text_def Let_def)
    next
      case True
      have "fst (translate_text env w key txt source_lang target_lang) =
              Inr (case first_translation result of
                     Inl e \<Rightarrow> JNull | Inr None \<Rightarrow> JNull | Inr (Some v) \<Rightarrow> v)"
        using Response Inr True
        by (simp add: translate_text_def translate_text_try_def Let_def
              split: sum.splits option.splits)
      with Response Inr True show ?thesis
        by (simp add: first_translation_text provider_text_def)
    qed
  qed
qed


lemma upper_EN: "str_upper ''EN'' = ''EN''"
  by code_simp

lemma upper_FR: "str_upper ''FR'' = ''FR''"
  by code_simp

text \<open>
  \<^bold>\<open>C8\<close>. \<^verbatim>\<open>translate_text\<close> never raises: its result is always a value. The value is the
  text of the first translation when the provider answers with status 200 and a body whose
  \<^verbatim>\<open>translations\<close> is a list starting with an object, and a value other than \<^verbatim>\<open>None\<close>
  is returned in that case only. On a transport error, on a status other than 200, on a body
  that does not parse, and on a body without translations or with an empty list of them, the
  value is \<^verbatim>\<open>None\<close>.
\<close>

theorem translate_text_sentinel:
  "fst (translate_text env w key txt src tgt) =
      Inr (provider_text (http_post env (deepl_request key txt src tgt)))
   \<and> (\<forall>e. http_post env (deepl_request key txt src tgt) = Raises e \<longrightarrow>
         fst (translate_text env w key txt src tgt) = Inr JNull)
   \<and> (\<forall>status body parsed.
         http_post env (deepl_request key txt src tgt) = Response status body parsed
           \<and> status \<noteq> 200 \<longrightarrow>
         fst (translate_text env w key txt src tgt) = Inr JNull)
   \<and> (\<forall>body e. http_post env (deepl_request key txt src tgt) = Response 200 body (Inl e) \<longrightarrow>
         fst (translate_text env w key txt src tgt) = Inr JNull)
   \<and> (\<forall>body kvs.
         http_post env (deepl_request key txt src tgt) = Response 200 body (Inr (JObj kvs))
           \<and> (map_of kvs ''translations'' = None \<or> map_of kvs ''translations'' = Some (JArr [])) \<longrightarrow>
         fst (translate_text env w key txt src tgt) = Inr JNull)
   \<and> (\<forall>body kvs t ts.
         http_post env (deepl_request key txt src tgt) = Response 200 body (Inr (JObj kvs))
           \<and> map_of kvs ''translations'' = Some (JArr (JObj t # ts)) \<longrightarrow>
         fst (translate_text env w key txt src tgt) =
           Inr (case map_of t ''text'' of None \<Rightarrow> JNull | Some v \<Rightarrow> v))
   \<and> (\<forall>v. fst (translate_text env w key txt src tgt) = Inr v \<and> v \<noteq> JNull \<longrightarrow>
         (\<exists>body kvs t ts.
            http_post env (deepl_request key txt src tgt) = Response 200 body (Inr (JObj kvs))
              \<and> map_of kvs ''translations'' = Some (JArr (JObj t # ts))
              \<and> map_of t ''text'' = Some v))"
proof -
  let ?out = "http_post env (deepl_request key txt src tgt)"
  let ?res = "fst (translate_text env w key txt src tgt)"
  have eq: "?res = Inr (provider_text ?out)"
    by (rule translate_text_fst)
  have transport: "\<forall>e. ?out = Raises e \<longrightarrow> ?res = Inr JNull"
    by (simp add: eq provider_text_def)
  have status: "\<forall>status body parsed. ?out = Response status body parsed \<and> status \<noteq> 200
      \<longrightarrow> ?res = Inr JNull"
    by (simp add: eq provider_text_def split: sum.splits)
  have unparsed: "\<forall>body e. ?out = Response 200 body (Inl e) \<longrightarrow> ?res = Inr JNull"
    by (simp add: eq provider_text_def)
  have empty: "\<forall>body kvs. ?out = Response 200 body (Inr (JObj kvs))
      \<and> (map_of kvs ''translations'' = None \<or> map_of kvs ''translations'' = Some (JArr []))
      \<longrightarrow> ?res = Inr JNull"
    by (auto simp: eq provider_text_def)
  have good: "\<forall>body kvs t ts. ?out = Response 200 body (Inr (JObj kvs))
      \<and> map_of kvs ''translations'' = Some (JArr (JObj t # ts))
      \<longrightarrow> ?res = Inr (case map_of t ''text'' of None \<Rightarrow> JNull | Some v \<Rightarrow> v)"
    by (auto simp: eq provider_text_def split: option.splits)
  have only: "\<forall>v. ?res = Inr v \<and> v \<noteq> JNull \<longrightarrow>
         (\<exists>body kvs t ts. ?out = Response 200 body (Inr (JObj kvs))
              \<and> map_of kvs ''translations'' = Some (JArr (JObj t # ts))
              \<and> map_of t ''text'' = Some v)"
  proof (intro allI impI)
    fix v
    assume a: "?res = Inr v \<and> v \<noteq> JNull"
    with eq have p: "provider_text ?out = v" "v \<noteq> JNull"
      by auto
    then obtain status body result where
      out: "?out = Response status body (Inr result)" and st: "status = 200"
      and tx: "text_of_result result = v"
      by (auto simp: provider_text_def split: http_outcome.splits sum.splits if_splits)
    from tx p(2) text_of_result_not_null [of result] obtain kvs t ts where
      r: "result = JObj kvs" and m: "map_of kvs ''translations'' = Some (JArr (JObj t # ts))"
      and c: "text_of_result result = (case map_of t ''text'' of None \<Rightarrow> JNull | Some u \<Rightarrow> u)"
      by auto
    from c tx p(2) have "map_of t ''text'' = Some v"
      by (cases "map_of t ''text''") auto
    with out st r m show "\<exists>body kvs t ts. ?out = Response 200 body (Inr (JObj kvs))
              \<and> map_of kvs ''translations'' = Some (JArr (JObj t # ts))
              \<and> map_of t ''text'' = Some v"
      by blast
  qed
  from eq transport status unparsed empty good only show ?thesis
    by blast
qed

theorem translate_text_sentinel_witness:
  "fst (translate_text article_env empty_world ''K'' ''Hallo'' ''de'' ''EN'') = Inr (JStr ''Hello'')
   \<and> fst (translate_text article_env empty_world ''K'' ''Hallo'' ''de'' ''FR'') = Inr JNull"
proof -
  let ?kvs = "[(''translations'', JArr [JObj [(''text'', JStr ''Hello'')]])]"
  have en: "http_post article_env (deepl_request ''K'' ''Hallo'' ''de'' ''EN'')
              = Response 200 [] (Inr (JObj ?kvs))
            \<and> map_of ?kvs ''translations'' = Some (JArr (JObj [(''text'', JStr ''Hello'')] # []))"
    by (simp add: article_env_def article_endpoint_def deepl_request_def upper_EN
          hello_response_def)
  have fr: "http_post article_env (deepl_request ''K'' ''Hallo'' ''de'' ''FR'')
              = Raises RequestException"
    by (simp add: article_env_def article_endpoint_def deepl_request_def upper_FR)
  from translate_text_sentinel [of article_env empty_world "''K''" "''Hallo''" "''de''" "''EN''"] en
  have 1: "fst (translate_text article_env empty_world ''K'' ''Hallo'' ''de'' ''EN'')
             = Inr (case map_of [(''text'', JStr ''Hello'')] ''text'' of
                      None \<Rightarrow> JNull | Some v \<Rightarrow> v)"
    by blast
  from translate_text_sentinel [of article_env empty_world "''K''" "''Hallo''" "''de''" "''FR''"] fr
  have 2: "fst (translate_text article_env empty_world ''K'' ''Hallo'' ''de'' ''FR'') = Inr JNull"
    by blast
  from 1 2 show ?thesis by simp
qed

subsection \<open>Saving twice\<close>

lemma get_store_row_clock [simp]:
  "get_store_row (w\<lparr>clock_reads := n\<rparr>) dt dn vid lang = get_store_row w dt dn vid lang"
  by (simp add: get_store_row_def)

lemma save_new:
  assumes "get_store_row w dt dn vid lang = None"
  shows "save_translation_to_store env w dt dn vid lang content =
           w\<lparr>clock_reads := Suc (clock_reads w),
              store := store w @
                [\<lparr>parent_doctype = dt, parent_name = dn, version_id = vid, language = lang,
                  translated_content = json_dumps (JObj content),
                  translation_status = ''Completed'', edit_mode = False,
                  last_translated = Some (wall_clock env (clock_reads w))\<rparr>]\<rparr>"
  using assms by (simp add: save_translation_to_store_def datetime_now_def)

lemma save_existing:
  assumes "get_store_row w dt dn vid lang = Some i"
  shows "save_translation_to_store env w dt dn vid lang content =
           w\<lparr>clock_reads := Suc (clock_reads w),
              store := (store w)[i := (store w ! i)
                \<lparr>translated_content := json_dumps (JObj content),
                 translation_status := ''Completed'',
                 last_translated := Some (wall_clock env (clock_reads w))\<rparr>]\<rparr>"
  using assms by (simp add: save_translation_to_store_def datetime_now_def)

lemma get_store_row_after_new:
  assumes "get_store_row w dt dn vid lang = None"
  shows "get_store_row (save_translation_to_store env w dt dn vid lang content) dt dn vid lang
           = Some (length (store w))"
  using assms
  by (simp add: save_new get_store_row_def first_index_append_new has_key_def)

lemma get_store_row_after_existing:
  assumes "get_store_row w dt dn vid lang = Some i"
  shows "get_store_row (save_translation_to_store env w dt dn vid lang content) dt dn vid lang
           = Some i"
proof -
  from assms have "has_key dt dn vid lang (store w ! i)"
    by (auto simp: get_store_row_def dest: first_index_SomeD)
  then have "has_key dt dn vid lang ((store w ! i)
                \<lparr>translated_content := json_dumps (JObj content),
                 translation_status := ''Completed'',
                 last_translated := Some (wall_clock env (clock_reads w))\<rparr>)"
    by (simp add: has_key_def)
  with assms show ?thesis
    by (simp add: save_existing get_store_row_def first_index_update_keep)
qed

lemma save_absorbs:
  "save_translation_to_store env (save_translation_to_store env w dt dn vid lang c1)
       dt dn vid lang c2
     = save_translation_to_store env (w\<lparr>clock_reads := Suc (clock_reads w)\<rparr>) dt dn vid lang c2"
proof (cases "get_store_row w dt dn vid lang")
  case None
  from get_store_row_after_new [OF None, of env c1]
  have "save_translation_to_store env (save_translation_to_store env w dt dn vid lang c1)
          dt dn vid lang c2
        = (save_translation_to_store env w dt dn vid lang c1)
            \<lparr>clock_reads := Suc (clock_reads (save_translation_to_store env w dt dn vid lang c1)),
             store := (store (save_translation_to_store env w dt dn vid lang c1))
               [length (store w) := (store (save_translation_to_store env w dt dn vid lang c1)
                   ! length (store w))
                 \<lparr>translated_content := json_dumps (JObj c2),
                  translation_status := ''Completed'',
                  last_translated := Some (wall_clock env
                     (clock_reads (save_translation_to_store env w dt dn vid lang c1)))\<rparr>]\<rparr>"
    by (rule save_existing)
  also have "\<dots> = save_translation_to_store env (w\<lparr>clock_reads := Suc (clock_reads w)\<rparr>)
                      dt dn vid lang c2"
    using None by (simp add: save_new)
  finally show ?thesis .
next
  case (Some i)
  then have i: "i < length (store w)"
    by (auto simp: get_store_row_def dest: first_index_SomeD)
  from get_store_row_after_existing [OF Some, of env c1]
  have "save_translation_to_store env (save_translation_to_store env w dt dn vid lang c1)
          dt dn vid lang c2
        = (save_translation_to_store env w dt dn vid lang c1)
            \<lparr>clock_reads := Suc (clock_reads (save_translation_to_store env w dt dn vid lang c1)),
             store := (store (save_translation_to_store env w dt dn vid lang c1))
               [i := (store (save_translation_to_store env w dt dn vid lang c1) ! i)
                 \<lparr>translated_content := json_dumps (JObj c2),
                  translation_status := ''Completed'',
                  last_translated := Some (wall_clock env
                     (clock_reads (save_translation_to_store env w dt dn vid lang c1)))\<rparr>]\<rparr>"
    by (rule save_existing)
  also have "\<dots> = save_translation_to_store env (w\<lparr>clock_reads := Suc (clock_reads w)\<rparr>)
                      dt dn vid lang c2"
    using Some i by (simp add: save_existing)
  finally show ?thesis .
qed

lemma save_repeated:
  "((\<lambda>u. save_translation_to_store env u dt dn vid lang c) ^^ Suc n) w
     = save_translation_to_store env (w\<lparr>clock_reads := clock_reads w + n\<rparr>) dt dn vid lang c"
proof (induction n)
  case 0
  show ?case by simp
next
  case (Suc n)
  have "((\<lambda>u. save_translation_to_store env u dt dn vid lang c) ^^ Suc (Suc n)) w
          = save_translation_to_store env
              (((\<lambda>u. save_translation_to_store env u dt dn vid lang c) ^^ Suc n) w)
              dt dn vid lang c"
    by simp
  also have "\<dots> = save_translation_to_store env
              (save_translation_to_store env (w\<lparr>clock_reads := clock_reads w + n\<rparr>)
                 dt dn vid lang c) dt dn vid lang c"
    by (simp only: Suc.IH)
  also have "\<dots> = save_translation_to_store env
              (w\<lparr>clock_reads := clock_reads w + Suc n\<rparr>) dt dn vid lang c"
    by (simp add: save_absorbs)
  finally show ?case .
qed

lemma save_store_modulo_time:
  "map (\<lambda>r. r\<lparr>last_translated := None\<rparr>)
       (store (save_translation_to_store env (w\<lparr>clock_reads := m\<rparr>) dt dn vid lang c))
     = map (\<lambda>r. r\<lparr>last_translated := None\<rparr>)
         (store (save_translation_to_store env w dt dn vid lang c))"
proof (cases "get_store_row w dt dn vid lang")
  case None
  then show ?thesis by (simp add: save_new)
next
  case (Some i)
  then show ?thesis by (simp add: save_existing map_update)
qed

lemma length_filter_update:
  "i < length xs \<Longrightarrow> P y = P (xs ! i) \<Longrightarrow>
     length (filter P (xs[i := y])) = length (filter P xs)"
proof (induction xs arbitrary: i)
  case Nil
  then show ?case by simp
next
  case (Cons x xs)
  then show ?case by (cases i) auto
qed

lemma filter_single:
  assumes "length (filter P xs) = 1" "a \<in> set xs" "P a" "b \<in> set xs" "P b"
  shows "a = b"
proof -
  from assms(1) obtain y where y: "filter P xs = [y]"
    by (cases "filter P xs") auto
  from assms(2,3) have "a \<in> set (filter P xs)" by simp
  moreover from assms(4,5) have "b \<in> set (filter P xs)" by simp
  ultimately show ?thesis using y by simp
qed

lemma save_one_row:
  assumes "key_count dt dn vid lang (store w) \<le> 1"
  shows "key_count dt dn vid lang (store (save_translation_to_store env w dt dn vid lang c)) = 1
    \<and> (\<forall>r\<in>set (store (save_translation_to_store env w dt dn vid lang c)).
          has_key dt dn vid lang r \<longrightarrow>
            translated_content r = json_dumps (JObj c) \<and> translation_status r = ''Completed'')"
proof (cases "get_store_row w dt dn vid lang")
  case None
  then have no: "\<forall>r\<in>set (store w). \<not> has_key dt dn vid lang r"
    by (simp add: get_store_row_def first_index_None_iff)
  then have "filter (has_key dt dn vid lang) (store w) = []"
    by (simp add: filter_empty_conv)
  with None no show ?thesis
    by (auto simp: save_new key_count_def has_key_def)
next
  case (Some i)
  let ?new = "(store w ! i)\<lparr>translated_content := json_dumps (JObj c),
                 translation_status := ''Completed'',
                 last_translated := Some (wall_clock env (clock_reads w))\<rparr>"
  let ?rows = "(store w)[i := ?new]"
  from Some have i: "i < length (store w)" and k: "has_key dt dn vid lang (store w ! i)"
    by (auto simp: get_store_row_def dest: first_index_SomeD)
  have st: "store (save_translation_to_store env w dt dn vid lang c) = ?rows"
    using Some by (simp add: save_existing)
  from k have kn: "has_key dt dn vid lang ?new"
    by (simp add: has_key_def)
  from i k kn have len: "key_count dt dn vid lang ?rows = key_count dt dn vid lang (store w)"
    by (simp add: key_count_def length_filter_update)
  from i have mem: "?new \<in> set ?rows"
    by (simp add: set_update_memI)
  from mem kn have "?new \<in> set (filter (has_key dt dn vid lang) ?rows)"
    by simp
  then have "0 < length (filter (has_key dt dn vid lang) ?rows)"
    by (rule length_pos_if_in_set)
  then have "0 < key_count dt dn vid lang ?rows"
    by (simp only: key_count_def)
  with len assms have one: "key_count dt dn vid lang ?rows = 1"
    by simp
  have "\<forall>r\<in>set ?rows. has_key dt dn vid lang r \<longrightarrow> r = ?new"
  proof (intro ballI impI)
    fix r
    assume "r \<in> set ?rows" "has_key dt dn vid lang r"
    with one mem kn show "r = ?new"
      unfolding key_count_def by (blast intro: filter_single)
  qed
  with one st show ?thesis
    by auto
qed


text \<open>
  \<^bold>\<open>C2\<close>. In a table with at most one row for the key, \<^verbatim>\<open>save_translation_to_store\<close>
  called twice with that key leaves exactly one row for it, with the content of the second
  call and the status \<^verbatim>\<open>Completed\<close>. A call absorbs the call before it: the world is what
  the later call alone leaves when it reads the later time, so any number of calls with the
  same arguments leaves what one call leaves at the time of the last; the table is the same
  whatever the number of calls in every field but \<^verbatim>\<open>last_translated\<close>, which holds the
  clock reading of the last call.
\<close>

theorem upsert_latest_wins:
  "(key_count dt dn vid lang (store w) \<le> 1 \<longrightarrow>
      key_count dt dn vid lang
        (store (save_translation_to_store env
                 (save_translation_to_store env w dt dn vid lang c1) dt dn vid lang c2)) = 1
      \<and> (\<forall>r\<in>set (store (save_translation_to_store env
                 (save_translation_to_store env w dt dn vid lang c1) dt dn vid lang c2)).
            has_key dt dn vid lang r \<longrightarrow>
              translated_content r = json_dumps (JObj c2) \<and> translation_status r = ''Completed''))
   \<and> save_translation_to_store env (save_translation_to_store env w dt dn vid lang c1)
         dt dn vid lang c2
       = save_translation_to_store env (w\<lparr>clock_reads := Suc (clock_reads w)\<rparr>) dt dn vid lang c2
   \<and> ((\<lambda>u. save_translation_to_store env u dt dn vid lang c) ^^ Suc n) w
       = save_translation_to_store env (w\<lparr>clock_reads := clock_reads w + n\<rparr>) dt dn vid lang c
   \<and> map (\<lambda>r. r\<lparr>last_translated := None\<rparr>)
         (store (((\<lambda>u. save_translation_to_store env u dt dn vid lang c) ^^ Suc n) w))
       = map (\<lambda>r. r\<lparr>last_translated := None\<rparr>)
           (store (save_translation_to_store env w dt dn vid lang c))"
proof (intro conjI impI)
  assume one: "key_count dt dn vid lang (store w) \<le> 1"
  from save_one_row [OF one, of env c1]
  have "key_count dt dn vid lang (store (save_translation_to_store env w dt dn vid lang c1)) \<le> 1"
    by simp
  from save_one_row [OF this, of env c2]
  show "key_count dt dn vid lang
        (store (save_translation_to_store env
                 (save_translation_to_store env w dt dn vid lang c1) dt dn vid lang c2)) = 1"
    and "\<forall>r\<in>set (store (save_translation_to_store env
                 (save_translation_to_store env w dt dn vid lang c1) dt dn vid lang c2)).
            has_key dt dn vid lang r \<longrightarrow>
              translated_content r = json_dumps (JObj c2) \<and> translation_status r = ''Completed''"
    by blast+
next
  show "save_translation_to_store env (save_translation_to_store env w dt dn vid lang c1)
         dt dn vid lang c2
       = save_translation_to_store env (w\<lparr>clock_reads := Suc (clock_reads w)\<rparr>) dt dn vid lang c2"
    by (rule save_absorbs)
next
  show "((\<lambda>u. save_translation_to_store env u dt dn vid lang c) ^^ Suc n) w
       = save_translation_to_store env (w\<lparr>clock_reads := clock_reads w + n\<rparr>) dt dn vid lang c"
    by (rule save_repeated)
next
  show "map (\<lambda>r. r\<lparr>last_translated := None\<rparr>)
         (store (((\<lambda>u. save_translation_to_store env u dt dn vid lang c) ^^ Suc n) w))
       = map (\<lambda>r. r\<lparr>last_translated := None\<rparr>)
           (store (save_translation_to_store env w dt dn vid lang c))"
    by (simp only: save_repeated save_store_modulo_time)
qed

lemma dumps_title_hello: "json_dumps (JObj [(''title'', JStr ''Hello'')]) = title_hello"
  by code_simp

theorem upsert_latest_wins_witness:
  "key_count ''Article'' ''A1'' ''v1'' ''en'' (store empty_world) \<le> 1
   \<and> key_count ''Article'' ''A1'' ''v1'' ''en''
        (store (save_translation_to_store article_env
                 (save_translation_to_store article_env empty_world ''Article'' ''A1'' ''v1'' ''en''
                    [(''title'', JStr ''Hallo'')])
                 ''Article'' ''A1'' ''v1'' ''en'' [(''title'', JStr ''Hello'')])) = 1
   \<and> store (save_translation_to_store article_env
                 (save_translation_to_store article_env empty_world ''Article'' ''A1'' ''v1'' ''en''
                    [(''title'', JStr ''Hallo'')])
                 ''Article'' ''A1'' ''v1'' ''en'' [(''title'', JStr ''Hello'')])
       = [\<lparr>parent_doctype = ''Article'', parent_name = ''A1'', version_id = ''v1'',
           language = ''en'', translated_content = title_hello,
           translation_status = ''Completed'', edit_mode = False,
           last_translated = Some (article_time 1 0)\<rparr>]"
proof -
  have h: "key_count ''Article'' ''A1'' ''v1'' ''en'' (store empty_world) \<le> 1"
    by (simp add: key_count_def empty_world_def)
  note t = upsert_latest_wins [where dt = "''Article''" and dn = "''A1''" and vid = "''v1''"
      and lang = "''en''" and w = empty_world and env = article_env
      and ?c1.0 = "[(''title'', JStr ''Hallo'')]" and ?c2.0 = "[(''title'', JStr ''Hello'')]"
      and c = "[]" and n = 0]
  note 1 = t [THEN conjunct1, THEN mp, OF h, THEN conjunct1]
  note a = t [THEN conjunct2, THEN conjunct1]
  have "store (save_translation_to_store article_env
           (empty_world\<lparr>clock_reads := Suc (clock_reads empty_world)\<rparr>)
           ''Article'' ''A1'' ''v1'' ''en'' [(''title'', JStr ''Hello'')])
        = [\<lparr>parent_doctype = ''Article'', parent_name = ''A1'', version_id = ''v1'',
           language = ''en'', translated_content = title_hello,
           translation_status = ''Completed'', edit_mode = False,
           last_translated = Some (article_time 1 0)\<rparr>]"
    by (simp add: save_translation_to_store_def datetime_now_def get_store_row_def
          empty_world_def article_env_def dumps_title_hello del: json_dumps.simps)
  with a have 2: "store (save_translation_to_store article_env
                 (save_translation_to_store article_env empty_world ''Article'' ''A1'' ''v1'' ''en''
                    [(''title'', JStr ''Hallo'')])
                 ''Article'' ''A1'' ''v1'' ''en'' [(''title'', JStr ''Hello'')])
       = [\<lparr>parent_doctype = ''Article'', parent_name = ''A1'', version_id = ''v1'',
           language = ''en'', translated_content = title_hello,
           translation_status = ''Completed'', edit_mode = False,
           last_translated = Some (article_time 1 0)\<rparr>]"
    by (simp only:)
  from h 1 2 show ?thesis
    by (intro conjI)
qed

text \<open>
  The table does depend on the number of calls: a second call with the same arguments
  writes the later clock reading into \<^verbatim>\<open>last_translated\<close>.
\<close>

theorem upsert_same_state_counterexample:
  "store (save_translation_to_store article_env
            (save_translation_to_store article_env empty_world ''Article'' ''A1'' ''v1'' ''en''
               [(''title'', JStr ''Hello'')])
            ''Article'' ''A1'' ''v1'' ''en'' [(''title'', JStr ''Hello'')])
     \<noteq> store (save_translation_to_store article_env empty_world ''Article'' ''A1'' ''v1'' ''en''
                [(''title'', JStr ''Hello'')])"
  unfolding save_absorbs
  by (simp add: save_new get_store_row_def empty_world_def article_env_def article_time_def)

subsection \<open>The version id\<close>

lemma length_le_bytes [simp]: "length (le_bytes k n) = k"
  by (simp add: le_bytes_def)

lemma length_md5_digest [simp]: "length (md5_digest bs) = 16"
  by (simp add: md5_digest_def split: prod.splits)

lemma is_hex_digit: "n < 16 \<Longrightarrow> is_hex_char (hex_digit n)"
  by (auto simp: is_hex_char_def hex_digit_def Let_def)

lemma hex_byte_hex: "list_all is_hex_char (hex_byte b)"
  by (simp add: hex_byte_def is_hex_digit)

lemma length_hex_byte [simp]: "length (hex_byte b) = 2"
  by (simp add: hex_byte_def)

lemma length_concat_hex: "length (concat (map hex_byte bs)) = 2 * length bs"
  by (induction bs) auto

lemma concat_hex_hex: "list_all is_hex_char (concat (map hex_byte bs))"
  by (induction bs) (auto simp: hex_byte_hex)

lemma length_md5_hexdigest [simp]: "length (md5_hexdigest bs) = 32"
  by (simp add: md5_hexdigest_def length_concat_hex)

lemma md5_hexdigest_hex: "list_all is_hex_char (md5_hexdigest bs)"
  by (simp add: md5_hexdigest_def concat_hex_hex)

lemma list_all_take: "list_all P xs \<Longrightarrow> list_all P (take n xs)"
  by (auto simp: list_all_iff dest: in_set_takeD)

lemma version_hash_form:
  "length (version_hash doc m) = 12 \<and> list_all is_hex_char (version_hash doc m)"
  by (simp add: version_hash_def list_all_take md5_hexdigest_hex)

lemma is_hashed_id_hash: "is_hashed_id (name doc) (name doc @ ''_'' @ version_hash doc m)"
  using version_hash_form [of doc m] by (simp add: is_hashed_id_def)

lemma get_version_id_modified:
  assumes "attrs doc ''modified'' = Some m" "truthy m"
  shows "get_version_id env w doc = (name doc @ ''_'' @ version_hash doc m, w)"
  using assms by (simp add: get_version_id_def)

lemma get_version_id_fallback:
  assumes "attrs doc ''modified'' = None \<or> (\<exists>m. attrs doc ''modified'' = Some m \<and> \<not> truthy m)"
  shows "get_version_id env w doc =
           (name doc @ ''_'' @ strftime_compact (wall_clock env (clock_reads w)),
            w\<lparr>clock_reads := Suc (clock_reads w)\<rparr>)"
  using assms by (auto simp: get_version_id_def version_fallback_def datetime_now_def)

lemma strftime_drops_microseconds:
  "strftime_compact (d\<lparr>microsecond := us\<rparr>) = strftime_compact d"
  by (simp add: strftime_compact_def)

text \<open>
  \<^bold>\<open>C4\<close>. For a document whose \<^verbatim>\<open>modified\<close> is present and true, \<^verbatim>\<open>get_version_id\<close>
  returns the name, an underscore and the first 12 hexadecimal digits of the MD5 digest of
  \<^verbatim>\<open><doctype>_<name>_<modified>\<close>, where a datetime is written to the second as
  \<^verbatim>\<open>%Y%m%d%H%M%S\<close> and any other value as \<^verbatim>\<open>str\<close> writes it; the clock is not read.
  For a document whose \<^verbatim>\<open>modified\<close> is absent or false it returns the name, an underscore
  and the current time written as \<^verbatim>\<open>%Y%m%d%H%M%S\<close>: no digest is taken.
\<close>

theorem version_id_form:
  "(\<forall>m. attrs doc ''modified'' = Some m \<and> truthy m \<longrightarrow>
       get_version_id env w doc =
         (name doc @ ''_'' @
            take 12 (md5_hexdigest (encode (doctype doc @ ''_'' @ name doc @ ''_'' @ modified_str m))),
          w)
       \<and> is_hashed_id (name doc) (fst (get_version_id env w doc)))
   \<and> (\<forall>d us. modified_str (PDatetime d) = strftime_compact d
         \<and> strftime_compact (d\<lparr>microsecond := us\<rparr>) = strftime_compact d)
   \<and> (\<forall>m. (case m of PDatetime d \<Rightarrow> False | _ \<Rightarrow> True) \<longrightarrow> modified_str m = py_str m)
   \<and> (attrs doc ''modified'' = None \<or> (\<exists>m. attrs doc ''modified'' = Some m \<and> \<not> truthy m) \<longrightarrow>
       get_version_id env w doc =
         (name doc @ ''_'' @ strftime_compact (wall_clock env (clock_reads w)),
          w\<lparr>clock_reads := Suc (clock_reads w)\<rparr>))"
proof (intro conjI allI impI)
  fix m
  assume a: "attrs doc ''modified'' = Some m \<and> truthy m"
  then have g: "get_version_id env w doc = (name doc @ ''_'' @ version_hash doc m, w)"
    by (simp add: get_version_id_modified)
  then show "get_version_id env w doc =
         (name doc @ ''_'' @
            take 12 (md5_hexdigest (encode (doctype doc @ ''_'' @ name doc @ ''_'' @ modified_str m))),
          w)"
    by (simp add: version_hash_def version_string_def)
  from g is_hashed_id_hash [of doc m]
  show "is_hashed_id (name doc) (fst (get_version_id env w doc))"
    by simp
next
  fix d us
  show "modified_str (PDatetime d) = strftime_compact d"
    by (simp add: modified_str_def)
  show "strftime_compact (d\<lparr>microsecond := us\<rparr>) = strftime_compact d"
    by (rule strftime_drops_microseconds)
next
  fix m
  assume "case m of PDatetime d \<Rightarrow> False | _ \<Rightarrow> True"
  then show "modified_str m = py_str m"
    by (cases m) (simp_all add: modified_str_def)
next
  assume "attrs doc ''modified'' = None \<or> (\<exists>m. attrs doc ''modified'' = Some m \<and> \<not> truthy m)"
  then show "get_version_id env w doc =
         (name doc @ ''_'' @ strftime_compact (wall_clock env (clock_reads w)),
          w\<lparr>clock_reads := Suc (clock_reads w)\<rparr>)"
    by (rule get_version_id_fallback)
qed

lemma strftime_article_0: "strftime_compact (article_time 0 0) = ''20240101100000''"
  by code_simp

lemma strftime_article_1: "strftime_compact (article_time (Suc 0) 0) = ''20240101100001''"
  by code_simp

theorem version_id_form_witness:
  "get_version_id article_env empty_world article_doc =
     (''A1_'' @ take 12 (md5_hexdigest (encode ''Article_A1_20240101100000'')), empty_world)
   \<and> is_hashed_id ''A1'' (fst (get_version_id article_env empty_world article_doc))
   \<and> get_version_id article_env empty_world (article_doc\<lparr>attrs := Map.empty\<rparr>) =
       (''A1_20240101100000'', empty_world\<lparr>clock_reads := 1\<rparr>)"
proof -
  have m: "attrs article_doc ''modified'' = Some (PDatetime (article_time 0 0))
           \<and> truthy (PDatetime (article_time 0 0))"
    by (simp add: article_doc_def)
  have n: "attrs (article_doc\<lparr>attrs := Map.empty\<rparr>) ''modified'' = None
           \<or> (\<exists>m. attrs (article_doc\<lparr>attrs := Map.empty\<rparr>) ''modified'' = Some m \<and> \<not> truthy m)"
    by simp
  note t = version_id_form [of article_doc article_env empty_world]
  note 1 = t [THEN conjunct1, THEN spec, THEN mp, OF m]
  note 2 = version_id_form [of "article_doc\<lparr>attrs := Map.empty\<rparr>" article_env empty_world,
      THEN conjunct2, THEN conjunct2, THEN conjunct2, THEN mp, OF n]
  have nm: "name article_doc = ''A1''" "doctype article_doc = ''Article''"
    by (simp_all add: article_doc_def)
  from 1 [THEN conjunct1]
  have a: "get_version_id article_env empty_world article_doc =
     (''A1_'' @ take 12 (md5_hexdigest (encode ''Article_A1_20240101100000'')), empty_world)"
    by (simp add: nm modified_str_def strftime_article_0)
  from 1 [THEN conjunct2]
  have b: "is_hashed_id ''A1'' (fst (get_version_id article_env empty_world article_doc))"
    by (simp only: nm)
  from 2 have c: "get_version_id article_env empty_world (article_doc\<lparr>attrs := Map.empty\<rparr>) =
       (''A1_20240101100000'', empty_world\<lparr>clock_reads := 1\<rparr>)"
    by (simp add: article_doc_def article_env_def empty_world_def strftime_article_0)
  from a b c show ?thesis
    by (intro conjI)
qed

text \<open>
  Without \<^verbatim>\<open>modified\<close> the id is not of the form \<^verbatim>\<open><name>_<12 hexadecimal digits>\<close>: it
  ends in the fourteen digits of the time.
\<close>

theorem version_id_form_counterexample:
  "attrs (article_doc\<lparr>attrs := Map.empty\<rparr>) ''modified'' = None
   \<and> fst (get_version_id article_env empty_world (article_doc\<lparr>attrs := Map.empty\<rparr>))
       = ''A1_20240101100000''
   \<and> \<not> is_hashed_id (name (article_doc\<lparr>attrs := Map.empty\<rparr>))
         (fst (get_version_id article_env empty_world (article_doc\<lparr>attrs := Map.empty\<rparr>)))"
  by (simp add: get_version_id_def version_fallback_def datetime_now_def article_doc_def
        article_env_def empty_world_def strftime_article_0 is_hashed_id_def)


text \<open>
  \<^bold>\<open>C3\<close>. For two documents with the same doctype and name whose \<^verbatim>\<open>modified\<close> values
  are present and true, the ids do not depend on the clock or the world; they are equal when
  the two values are equal, and more generally when they are written alike (two datetimes
  within the same second). When they are written differently the two hashed strings differ,
  and the ids differ exactly when the first 12 hexadecimal digits of the two digests differ.
\<close>

theorem version_id_deterministic:
  "doctype D = doctype D' \<and> name D = name D'
     \<and> attrs D ''modified'' = Some m \<and> attrs D' ''modified'' = Some m' \<and> truthy m \<and> truthy m'
   \<longrightarrow>
     (m = m' \<longrightarrow> fst (get_version_id env w D) = fst (get_version_id env' w' D'))
     \<and> (modified_str m = modified_str m' \<longrightarrow>
           fst (get_version_id env w D) = fst (get_version_id env' w' D'))
     \<and> (version_string D m = version_string D' m' \<longleftrightarrow> modified_str m = modified_str m')
     \<and> (fst (get_version_id env w D) = fst (get_version_id env' w' D')
           \<longleftrightarrow> version_hash D m = version_hash D' m')
     \<and> snd (get_version_id env w D) = w"
proof (intro impI)
  assume a: "doctype D = doctype D' \<and> name D = name D'
     \<and> attrs D ''modified'' = Some m \<and> attrs D' ''modified'' = Some m' \<and> truthy m \<and> truthy m'"
  then have g: "get_version_id env w D = (name D @ ''_'' @ version_hash D m, w)"
    and g': "get_version_id env' w' D' = (name D' @ ''_'' @ version_hash D' m', w')"
    by (simp_all add: get_version_id_modified)
  from a have vs: "version_string D m = version_string D' m' \<longleftrightarrow> modified_str m = modified_str m'"
    by (simp add: version_string_def)
  from a g g' have ids: "fst (get_version_id env w D) = fst (get_version_id env' w' D')
           \<longleftrightarrow> version_hash D m = version_hash D' m'"
    by simp
  from vs have same: "modified_str m = modified_str m' \<Longrightarrow> version_hash D m = version_hash D' m'"
    by (simp add: version_hash_def)
  from g have w: "snd (get_version_id env w D) = w"
    by simp
  from vs ids same w
  show "(m = m' \<longrightarrow> fst (get_version_id env w D) = fst (get_version_id env' w' D'))
     \<and> (modified_str m = modified_str m' \<longrightarrow>
           fst (get_version_id env w D) = fst (get_version_id env' w' D'))
     \<and> (version_string D m = version_string D' m' \<longleftrightarrow> modified_str m = modified_str m')
     \<and> (fst (get_version_id env w D) = fst (get_version_id env' w' D')
           \<longleftrightarrow> version_hash D m = version_hash D' m')
     \<and> snd (get_version_id env w D) = w"
    by blast
qed

theorem version_id_deterministic_witness:
  "fst (get_version_id article_env empty_world article_doc)
     = fst (get_version_id article_env (empty_world\<lparr>clock_reads := 7\<rparr>) article_doc)
   \<and> version_string article_doc (PDatetime (article_time 0 0))
       \<noteq> version_string
            (article_doc\<lparr>attrs := (attrs article_doc)(''modified'' \<mapsto> PDatetime (article_time 1 0))\<rparr>)
            (PDatetime (article_time 1 0))"
proof -
  let ?D' = "article_doc\<lparr>attrs := (attrs article_doc)(''modified'' \<mapsto> PDatetime (article_time 1 0))\<rparr>"
  have h1: "doctype article_doc = doctype article_doc \<and> name article_doc = name article_doc
     \<and> attrs article_doc ''modified'' = Some (PDatetime (article_time 0 0))
     \<and> attrs article_doc ''modified'' = Some (PDatetime (article_time 0 0))
     \<and> truthy (PDatetime (article_time 0 0)) \<and> truthy (PDatetime (article_time 0 0))"
    by (simp add: article_doc_def)
  have h2: "doctype article_doc = doctype ?D' \<and> name article_doc = name ?D'
     \<and> attrs article_doc ''modified'' = Some (PDatetime (article_time 0 0))
     \<and> attrs ?D' ''modified'' = Some (PDatetime (article_time 1 0))
     \<and> truthy (PDatetime (article_time 0 0)) \<and> truthy (PDatetime (article_time 1 0))"
    by (simp add: article_doc_def)
  have ne: "modified_str (PDatetime (article_time 0 0)) \<noteq> modified_str (PDatetime (article_time 1 0))"
    by (simp add: modified_str_def strftime_article_0 strftime_article_1)
  from version_id_deterministic [where D = article_doc and D' = article_doc
      and m = "PDatetime (article_time 0 0)" and m' = "PDatetime (article_time 0 0)"
      and env = article_env and env' = article_env and w = empty_world
      and w' = "empty_world\<lparr>clock_reads := 7\<rparr>", THEN mp, OF h1]
  have 1: "fst (get_version_id article_env empty_world article_doc)
     = fst (get_version_id article_env (empty_world\<lparr>clock_reads := 7\<rparr>) article_doc)"
    by simp
  from version_id_deterministic [where D = article_doc and D' = ?D'
      and m = "PDatetime (article_time 0 0)" and m' = "PDatetime (article_time 1 0)"
      and env = article_env and env' = article_env and w = empty_world and w' = empty_world,
      THEN mp, OF h2] ne
  have 2: "version_string article_doc (PDatetime (article_time 0 0))
       \<noteq> version_string ?D' (PDatetime (article_time 1 0))"
    by simp
  from 1 2 show ?thesis
    by (intro conjI)
qed

text \<open>
  Two documents that differ only in the microseconds of \<^verbatim>\<open>modified\<close> have the same id.
\<close>

theorem version_id_changes_counterexample:
  "doctype (article_doc\<lparr>attrs := (attrs article_doc)(''modified'' \<mapsto> PDatetime (article_time 0 1))\<rparr>)
     = doctype (article_doc\<lparr>attrs := (attrs article_doc)(''modified'' \<mapsto> PDatetime (article_time 0 2))\<rparr>)
   \<and> name (article_doc\<lparr>attrs := (attrs article_doc)(''modified'' \<mapsto> PDatetime (article_time 0 1))\<rparr>)
     = name (article_doc\<lparr>attrs := (attrs article_doc)(''modified'' \<mapsto> PDatetime (article_time 0 2))\<rparr>)
   \<and> attrs (article_doc\<lparr>attrs := (attrs article_doc)(''modified'' \<mapsto> PDatetime (article_time 0 1))\<rparr>)
         ''modified''
     \<noteq> attrs (article_doc\<lparr>attrs := (attrs article_doc)(''modified'' \<mapsto> PDatetime (article_time 0 2))\<rparr>)
         ''modified''
   \<and> fst (get_version_id article_env empty_world
         (article_doc\<lparr>attrs := (attrs article_doc)(''modified'' \<mapsto> PDatetime (article_time 0 1))\<rparr>))
     = fst (get_version_id article_env empty_world
         (article_doc\<lparr>attrs := (attrs article_doc)(''modified'' \<mapsto> PDatetime (article_time 0 2))\<rparr>))"
  by (simp add: get_version_id_def version_hash_def version_string_def modified_str_def
        strftime_compact_def article_time_def)

subsection \<open>The fields to translate\<close>












subsection \<open>The translation job\<close>












lemma job_unfold:
  assumes "settings env = Some s"
  shows "translate_to_all_languages_via tr env w dt dn =
     (case documents env (dt, dn) of
        None \<Rightarrow> log_error (JobError dt dn DoesNotExistError) w
      | Some doc \<Rightarrow>
          if py_or (api_key s) [] = [] then log_error ApiKeyMissing w
          else if py_or (default_target_languages s) [] = [] then log_error NoTargetLanguages w
          else (case get_active_translation_map env dt of
                  None \<Rightarrow> log_error (NoActiveMap dt) w
                | Some tm \<Rightarrow>
                    if field_mappings tm = [] then log_error (NoActiveMap dt) w
                    else if fields_to_translate doc tm = [] then log_error (NoFields dt dn) w
                    else foldl (translate_language tr env dt dn (fst (get_version_id env w doc))
                             (py_or (api_key s) []) (py_or (default_source_language s) ''de'')
                             (fields_to_translate doc tm))
                           (snd (get_version_id env w doc))
                           (target_languages (py_or (default_target_languages s) []))))"
  using assms
  by (simp add: translate_to_all_languages_via_def get_translation_settings_def Let_def
        split: option.splits prod.splits)






lemma save_outbox [simp]:
  "outbox (save_translation_to_store env w dt dn vid lang c) = outbox w"
  by (simp add: save_translation_to_store_def datetime_now_def split: option.splits)






lemma article_targets: "target_languages ''EN,FR'' = [''EN'', ''FR'']"
  by code_simp

lemma lower_EN: "str_lower ''EN'' = ''en''"
  by code_simp

lemma lower_FR: "str_lower ''FR'' = ''fr''"
  by code_simp

lemma article_fields: "fields_to_translate article_doc article_map = [(''title'', ''Hallo'')]"
  by (simp add: fields_to_translate_def collect_field_def article_doc_def article_map_def)

lemma article_version_id: "get_version_id article_env w article_doc = (article_version, w)"
proof -
  have "attrs article_doc ''modified'' = Some (PDatetime (article_time 0 0))"
    by (simp add: article_doc_def)
  then have "get_version_id article_env w article_doc =
      (name article_doc @ ''_'' @ version_hash article_doc (PDatetime (article_time 0 0)), w)"
    by (simp add: get_version_id_modified)
  also have "name article_doc @ ''_'' @ version_hash article_doc (PDatetime (article_time 0 0))
      = article_version"
    by (simp add: version_hash_def version_string_def modified_str_def strftime_article_0
          article_doc_def article_version_def)
  finally show ?thesis .
qed

lemma article_job:
  "translate_to_all_languages_via tr article_env empty_world ''Article'' ''A1'' =
     foldl (translate_language tr article_env ''Article'' ''A1'' article_version ''K'' ''de''
              [(''title'', ''Hallo'')])
       empty_world [''EN'', ''FR'']"
proof -
  have s: "settings article_env = Some article_settings"
    by (simp add: article_env_def)
  have d: "documents article_env (''Article'', ''A1'') = Some article_doc"
    by (simp add: article_env_def)
  have m: "get_active_translation_map article_env ''Article'' = Some article_map"
    by (simp add: get_active_translation_map_def article_env_def article_map_def)
  have f: "field_mappings article_map \<noteq> []"
    by (simp add: article_map_def)
  show ?thesis
    unfolding job_unfold [OF s]
    by (simp add: d m f article_fields article_version_id article_settings_def article_targets)
qed

lemma real_client_EN:
  "translate_text article_env w ''K'' ''Hallo'' ''de'' ''EN'' =
     (Inr (JStr ''Hello''), w\<lparr>outbox := outbox w @ [deepl_request ''K'' ''Hallo'' ''de'' ''EN'']\<rparr>)"
  by (simp add: translate_text_def translate_text_try_def Let_def article_env_def
        article_endpoint_def deepl_request_def upper_EN hello_response_def first_translation_def)

lemma real_client_FR:
  "translate_text article_env w ''K'' ''Hallo'' ''de'' ''FR'' =
     (Inr JNull, w\<lparr>outbox := outbox w @ [deepl_request ''K'' ''Hallo'' ''de'' ''FR''],
                    error_log := error_log w @ [DeeplRequestError RequestException]\<rparr>)"
  by (simp add: translate_text_def translate_text_try_def Let_def article_env_def
        article_endpoint_def deepl_request_def upper_FR log_error_def)

lemma article_wall_clock: "wall_clock article_env n = article_time n 0"
  by (simp add: article_env_def)

lemma real_language_EN:
  "translate_language (translate_text article_env) article_env ''Article'' ''A1'' article_version
       ''K'' ''de'' [(''title'', ''Hallo'')] empty_world ''EN''
     = empty_world\<lparr>outbox := [deepl_request ''K'' ''Hallo'' ''de'' ''EN''],
                    store := [article_row ''en'' title_hello ''Completed'' (Some (article_time 0 0))],
                    clock_reads := 1\<rparr>"
  by (simp add: translate_language_def real_client_EN lower_EN save_translation_to_store_def
        get_store_row_def datetime_now_def empty_world_def article_row_def dumps_title_hello
        article_wall_clock del: json_dumps.simps)

lemma real_language_FR:
  "translate_language (translate_text article_env) article_env ''Article'' ''A1'' article_version
       ''K'' ''de'' [(''title'', ''Hallo'')] w ''FR''
     = w\<lparr>outbox := outbox w @ [deepl_request ''K'' ''Hallo'' ''de'' ''FR''],
          error_log := error_log w @ [DeeplRequestError RequestException]\<rparr>"
  by (simp add: translate_language_def real_client_FR)

lemma raising_language_EN:
  "translate_language raising_client article_env ''Article'' ''A1'' article_version
       ''K'' ''de'' [(''title'', ''Hallo'')] empty_world ''EN''
     = empty_world\<lparr>store := [article_row ''en'' title_hello ''Completed'' (Some (article_time 0 0))],
                    clock_reads := Suc 0\<rparr>"
  by (simp add: translate_language_def raising_client_def lower_EN save_translation_to_store_def
        get_store_row_def datetime_now_def empty_world_def article_row_def dumps_title_hello
        article_wall_clock del: json_dumps.simps)

lemma raising_language_FR:
  "translate_language raising_client article_env ''Article'' ''A1'' article_version
       ''K'' ''de'' [(''title'', ''Hallo'')]
       (empty_world\<lparr>store := [article_row ''en'' title_hello ''Completed'' (Some (article_time 0 0))],
                    clock_reads := Suc 0\<rparr>) ''FR''
     = empty_world\<lparr>store := [article_row ''en'' title_hello ''Completed'' (Some (article_time 0 0)),
                               article_row ''FR'' ''{}'' ''Failed'' None],
                    error_log := [LanguageError ''Article'' ''A1'' ''FR'' RequestException],
                    clock_reads := Suc 0\<rparr>"
  by (simp add: translate_language_def raising_client_def update_translation_status_def
        get_store_row_def has_key_def log_error_def empty_world_def article_row_def)

lemma raising_job:
  "translate_to_all_languages_via raising_client article_env empty_world ''Article'' ''A1''
     = empty_world\<lparr>store := [article_row ''en'' title_hello ''Completed'' (Some (article_time 0 0)),
                               article_row ''FR'' ''{}'' ''Failed'' None],
                    error_log := [LanguageError ''Article'' ''A1'' ''FR'' RequestException],
                    clock_reads := Suc 0\<rparr>"
  by (simp add: article_job raising_language_EN raising_language_FR)


text \<open>
  \<^bold>\<open>C1\<close>. In the scenario (key \<^verbatim>\<open>K\<close>, source \<^verbatim>\<open>de\<close>, targets \<^verbatim>\<open>EN,FR\<close>, the title
  \<^verbatim>\<open>Hallo\<close> of \<^verbatim>\<open>Article/A1\<close>, an endpoint that answers \<^verbatim>\<open>Hello\<close> for EN and fails in
  transport for FR) the job leaves one row: (Article, A1, version id, en), \<^verbatim>\<open>Completed\<close>,
  with the content \<^verbatim>\<open>{"title": "Hello"}\<close>. It leaves no row for FR: \<^verbatim>\<open>translate_text\<close> turns
  the transport failure into \<^verbatim>\<open>None\<close>, no field is translated, nothing is saved, and the
  \<^verbatim>\<open>except\<close> that records \<^verbatim>\<open>Failed\<close> is not entered; the failure is in the error log only.
  With a client that raises in the place of \<^verbatim>\<open>translate_text\<close> the \<^verbatim>\<open>except\<close> records the
  failure under the language \<^verbatim>\<open>FR\<close>, in upper case, not \<^verbatim>\<open>fr\<close>. The EN row is there in both
  runs.
\<close>

theorem failed_language_leaves_no_row:
  "store (translate_to_all_languages article_env empty_world ''Article'' ''A1'')
     = [article_row ''en'' title_hello ''Completed'' (Some (article_time 0 0))]
   \<and> error_log (translate_to_all_languages article_env empty_world ''Article'' ''A1'')
     = [DeeplRequestError RequestException]
   \<and> outbox (translate_to_all_languages article_env empty_world ''Article'' ''A1'')
     = [deepl_request ''K'' ''Hallo'' ''de'' ''EN'', deepl_request ''K'' ''Hallo'' ''de'' ''FR'']
   \<and> store (translate_to_all_languages_via raising_client article_env empty_world
               ''Article'' ''A1'')
     = [article_row ''en'' title_hello ''Completed'' (Some (article_time 0 0)),
        article_row ''FR'' ''{}'' ''Failed'' None]"
proof -
  have "translate_to_all_languages article_env empty_world ''Article'' ''A1''
      = empty_world\<lparr>outbox := [deepl_request ''K'' ''Hallo'' ''de'' ''EN'',
                                 deepl_request ''K'' ''Hallo'' ''de'' ''FR''],
                     store := [article_row ''en'' title_hello ''Completed''
                                 (Some (article_time 0 0))],
                     clock_reads := 1,
                     error_log := error_log empty_world @ [DeeplRequestError RequestException]\<rparr>"
    unfolding translate_to_all_languages_def article_job
    by (simp add: real_language_EN real_language_FR)
  then have real: "store (translate_to_all_languages article_env empty_world ''Article'' ''A1'')
     = [article_row ''en'' title_hello ''Completed'' (Some (article_time 0 0))]
   \<and> error_log (translate_to_all_languages article_env empty_world ''Article'' ''A1'')
     = [DeeplRequestError RequestException]
   \<and> outbox (translate_to_all_languages article_env empty_world ''Article'' ''A1'')
     = [deepl_request ''K'' ''Hallo'' ''de'' ''EN'', deepl_request ''K'' ''Hallo'' ''de'' ''FR'']"
    by (simp add: empty_world_def)
  have "store (translate_to_all_languages_via raising_client article_env empty_world
               ''Article'' ''A1'')
     = [article_row ''en'' title_hello ''Completed'' (Some (article_time 0 0)),
        article_row ''FR'' ''{}'' ''Failed'' None]"
    by (simp add: raising_job)
  with real show ?thesis
    by (intro conjI) simp_all
qed




end
